theory Spec2Isabelle
  imports Complex_Main "HOL-Library.Option_ord" "HOL-Library.Multiset"
begin

section \<open>Data model shared by index creation and the plan rewriter\<close>

text \<open>
  Exceptions of the engine that the modelled code raises. A function that can raise
  returns \<open>Exception + 'a\<close>, with \<open>Inl\<close> for the raise.
\<close>

datatype Exception = BinderException string | InternalException string

datatype LogicalType =
  BOOLEAN | BIGINT | FLOAT | DOUBLE | VARCHAR | GEOMETRY | BOX_2DF | POINT_2D

text \<open>\<open>LogicalType::ROW_TYPE\<close> is the engine's name for the row identifier type.\<close>

definition ROW_TYPE :: LogicalType where
  "ROW_TYPE = BIGINT"

text \<open>
  \<open>Box2D<float>\<close>. Coordinates are single-precision floats in the source: finite
  binary32 values, given here by the reals they denote (infinite and NaN coordinates are
  not modelled). Arithmetic on them is not the arithmetic of the reals; where the code
  adds two coordinates, the binary32 addition is a parameter of the model.
\<close>

record Box2D =
  min_x :: real
  min_y :: real
  max_x :: real
  max_y :: real

text \<open>
  \<open>geometry_t\<close>, the serialised geometry blob. Its layout is declared in a header that
  is not part of the sources at hand; the two observations the modelled code makes of a
  blob are kept as fields: what \<open>TryGetCachedBounds\<close> yields (\<open>None\<close> when the blob
  carries no cached bounding box) and what \<open>sgl::ops::vertex_count\<close> yields after
  deserialisation.
\<close>

record geometry_t =
  cached_bounds :: "Box2D option"
  vertex_count :: nat

definition TryGetCachedBounds :: "geometry_t \<Rightarrow> Box2D option" where
  "TryGetCachedBounds blob = cached_bounds blob"

text \<open>
  A constant \<open>Value\<close>: its logical type and its string payload, which the rewriter reads
  with \<open>GetValueUnsafe<string_t>\<close> and views as a \<open>geometry_t\<close>.
\<close>

datatype Value = Value (value_type: LogicalType) (str_value: geometry_t)

datatype ScalarFunction =
  ScalarFunction (name: string) (arguments: "LogicalType list") (return_type: LogicalType)

datatype ExpressionType =
  OPERATOR_IS_NOT_NULL | OPERATOR_NOT | CONJUNCTION_AND | CONJUNCTION_OR
  | COMPARE_EQUAL | COMPARE_GREATERTHAN | COMPARE_LESSTHAN

text \<open>
  Bound expressions. \<open>BoundColumnRefExpression t ti ci\<close> has return type \<open>t\<close> and
  binding \<open>(table_index = ti, column_index = ci)\<close>; \<open>BoundReferenceExpression t i\<close>
  reads position \<open>i\<close> of the current row; \<open>BoundFunctionExpression t f cs\<close> applies the
  scalar function \<open>f\<close> to the children \<open>cs\<close>.
\<close>

datatype Expression =
    BoundColumnRefExpression LogicalType nat nat
  | BoundReferenceExpression LogicalType nat
  | BoundConstantExpression Value
  | BoundFunctionExpression LogicalType ScalarFunction "Expression list"
  | BoundOperatorExpression ExpressionType LogicalType "Expression list"
  | BoundConjunctionExpression ExpressionType "Expression list"
  | BoundComparisonExpression ExpressionType "Expression list"

fun expr_return_type :: "Expression \<Rightarrow> LogicalType" where
  "expr_return_type (BoundColumnRefExpression t _ _) = t"
| "expr_return_type (BoundReferenceExpression t _) = t"
| "expr_return_type (BoundConstantExpression v) = value_type v"
| "expr_return_type (BoundFunctionExpression t _ _) = t"
| "expr_return_type (BoundOperatorExpression _ t _) = t"
| "expr_return_type (BoundConjunctionExpression _ _) = BOOLEAN"
| "expr_return_type (BoundComparisonExpression _ _) = BOOLEAN"

text \<open>
  The engine's \<open>vector::operator[]\<close> checks its index and raises an internal exception
  when it is out of range.
\<close>

definition vector_at :: "'a list \<Rightarrow> nat \<Rightarrow> Exception + 'a" where
  "vector_at xs i =
     (if i < length xs then Inr (xs ! i)
      else Inl (InternalException ''Attempted to access index out of range''))"


section \<open>Scalar functions used by the index build\<close>

text \<open>
  Each function is given per row; \<open>None\<close> is SQL NULL. \<open>UnaryExecutor::Execute\<close> maps a
  NULL input to a NULL output without calling the function body.
\<close>

text \<open>\<open>ST_IsEmpty::ExecuteGeometry\<close>: the body, on a non-NULL blob.\<close>

definition ST_IsEmpty_ExecuteGeometry :: "geometry_t \<Rightarrow> bool" where
  "ST_IsEmpty_ExecuteGeometry blob = (vertex_count blob = 0)"

text \<open>\<open>ST_Extent_Approx::Execute\<close>, one row.\<close>

definition ST_Extent_Approx_Execute :: "geometry_t option \<Rightarrow> Box2D option" where
  "ST_Extent_Approx_Execute input =
     (case input of
        Some blob \<Rightarrow>
          (case TryGetCachedBounds blob of
             Some bbox \<Rightarrow>
               Some \<lparr>min_x = min_x bbox, min_y = min_y bbox,
                      max_x = max_x bbox, max_y = max_y bbox\<rparr>
           | None \<Rightarrow> None)
      | None \<Rightarrow> None)"

text \<open>
  \<open>ST_Centroid::ExecuteBox<float>\<close>, one row: \<open>(minx + maxx) * 0.5\<close>, where the sum of the
  two binary32 coordinates is a binary32 addition and the product with 0.5 is taken in
  double precision, where it is exact. The binary32 addition is the parameter
  \<open>float_add\<close>: it rounds, so it is not the sum of the reals; a sum that overflows is an
  infinity in the program, for which any value beyond the binary32 range can stand, as
  only the order of the keys is used.
\<close>

definition ST_Centroid_ExecuteBox ::
  "(real \<Rightarrow> real \<Rightarrow> real)
     \<Rightarrow> Box2D option \<Rightarrow> (real \<times> real) option" where
  "ST_Centroid_ExecuteBox float_add input =
     (case input of
        Some box \<Rightarrow>
          Some (float_add (min_x box) (max_x box) * 0.5,
                float_add (min_y box) (max_y box) * 0.5)
      | None \<Rightarrow> None)"

text \<open>
  \<open>ST_XMin\<close> on a \<open>POINT_2D\<close> (\<open>VertexAggFunctionBase::ExecutePoint\<close> with ordinate X):
  the result references the first child of the point, its x coordinate.
\<close>

definition ST_XMin_ExecutePoint :: "(real \<times> real) option \<Rightarrow> real option" where
  "ST_XMin_ExecutePoint point = (case point of Some (x, y) \<Rightarrow> Some x | None \<Rightarrow> None)"

text \<open>
  \<open>ST_XMin\<close> on a \<open>BOX_2DF\<close> (\<open>VertexAggFunctionBase::ExecuteBox\<close> with ordinate X and
  the minimum aggregate): the result references the first child of the box.
\<close>

definition ST_XMin_ExecuteBox :: "Box2D option \<Rightarrow> real option" where
  "ST_XMin_ExecuteBox input = (case input of Some box \<Rightarrow> Some (min_x box) | None \<Rightarrow> None)"

text \<open>
  The variants that the catalogue lookups of the index build resolve to, as the
  \<open>Register\<close> functions declare them (function names are looked up without regard to
  case).
\<close>

definition ST_IsEmpty_GEOMETRY :: ScalarFunction where
  "ST_IsEmpty_GEOMETRY = ScalarFunction ''ST_IsEmpty'' [GEOMETRY] BOOLEAN"

definition ST_Extent_Approx_GEOMETRY :: ScalarFunction where
  "ST_Extent_Approx_GEOMETRY = ScalarFunction ''ST_Extent_Approx'' [GEOMETRY] BOX_2DF"

definition ST_Centroid_BOX_2DF :: ScalarFunction where
  "ST_Centroid_BOX_2DF = ScalarFunction ''ST_Centroid'' [BOX_2DF] POINT_2D"

definition ST_XMin_POINT_2D :: ScalarFunction where
  "ST_XMin_POINT_2D = ScalarFunction ''ST_XMin'' [POINT_2D] DOUBLE"


section \<open>Row values and expression execution\<close>

text \<open>
  Values of a row at run time. Expression execution and the physical operators belong to
  the engine; they are given their SQL meaning here (three-valued logic, a filter keeps
  the rows on which its predicate is true), restricted to the expression forms that the
  index build constructs.
\<close>

datatype Datum =
    NULL_D
  | GEOMETRY_D geometry_t
  | BOX_2DF_D Box2D
  | POINT_2D_D real real
  | BOOLEAN_D bool
  | DOUBLE_D real
  | BIGINT_D int

definition as_geometry :: "Datum \<Rightarrow> Exception + geometry_t option" where
  "as_geometry d =
     (case d of NULL_D \<Rightarrow> Inr None | GEOMETRY_D g \<Rightarrow> Inr (Some g)
      | _ \<Rightarrow> Inl (InternalException ''GEOMETRY expected''))"

definition as_box :: "Datum \<Rightarrow> Exception + Box2D option" where
  "as_box d =
     (case d of NULL_D \<Rightarrow> Inr None | BOX_2DF_D b \<Rightarrow> Inr (Some b)
      | _ \<Rightarrow> Inl (InternalException ''BOX_2DF expected''))"

definition as_point :: "Datum \<Rightarrow> Exception + (real \<times> real) option" where
  "as_point d =
     (case d of NULL_D \<Rightarrow> Inr None | POINT_2D_D x y \<Rightarrow> Inr (Some (x, y))
      | _ \<Rightarrow> Inl (InternalException ''POINT_2D expected''))"

definition as_boolean :: "Datum \<Rightarrow> Exception + bool option" where
  "as_boolean d =
     (case d of NULL_D \<Rightarrow> Inr None | BOOLEAN_D b \<Rightarrow> Inr (Some b)
      | _ \<Rightarrow> Inl (InternalException ''BOOLEAN expected''))"

definition box_datum :: "Box2D option \<Rightarrow> Datum" where
  "box_datum b = (case b of None \<Rightarrow> NULL_D | Some x \<Rightarrow> BOX_2DF_D x)"

definition point_datum :: "(real \<times> real) option \<Rightarrow> Datum" where
  "point_datum p = (case p of None \<Rightarrow> NULL_D | Some (x, y) \<Rightarrow> POINT_2D_D x y)"

definition double_datum :: "real option \<Rightarrow> Datum" where
  "double_datum r = (case r of None \<Rightarrow> NULL_D | Some x \<Rightarrow> DOUBLE_D x)"

definition boolean_datum :: "bool option \<Rightarrow> Datum" where
  "boolean_datum b = (case b of None \<Rightarrow> NULL_D | Some x \<Rightarrow> BOOLEAN_D x)"

definition geometry_datum :: "geometry_t option \<Rightarrow> Datum" where
  "geometry_datum g = (case g of None \<Rightarrow> NULL_D | Some x \<Rightarrow> GEOMETRY_D x)"

text \<open>Calling a scalar function variant on evaluated arguments.\<close>

definition ExecuteFunction ::
  "(real \<Rightarrow> real \<Rightarrow> real)
     \<Rightarrow> ScalarFunction \<Rightarrow> Datum list \<Rightarrow> Exception + Datum" where
  "ExecuteFunction float_add f args =
     (case args of
        [d] \<Rightarrow>
          (if f = ST_IsEmpty_GEOMETRY then
             (case as_geometry d of
                Inl e \<Rightarrow> Inl e
              | Inr g \<Rightarrow> Inr (boolean_datum (map_option ST_IsEmpty_ExecuteGeometry g)))
           else if f = ST_Extent_Approx_GEOMETRY then
             (case as_geometry d of
                Inl e \<Rightarrow> Inl e
              | Inr g \<Rightarrow> Inr (box_datum (ST_Extent_Approx_Execute g)))
           else if f = ST_Centroid_BOX_2DF then
             (case as_box d of
                Inl e \<Rightarrow> Inl e
              | Inr b \<Rightarrow> Inr (point_datum (ST_Centroid_ExecuteBox float_add b)))
           else if f = ST_XMin_POINT_2D then
             (case as_point d of
                Inl e \<Rightarrow> Inl e
              | Inr p \<Rightarrow> Inr (double_datum (ST_XMin_ExecutePoint p)))
           else Inl (InternalException ''function not modelled''))
      | _ \<Rightarrow> Inl (InternalException ''function not modelled''))"

text \<open>Evaluating a list of results in order, stopping at the first raise.\<close>

fun sequence :: "(Exception + 'a) list \<Rightarrow> Exception + 'a list" where
  "sequence [] = Inr []"
| "sequence (r # rs) =
     (case r of
        Inl e \<Rightarrow> Inl e
      | Inr x \<Rightarrow> (case sequence rs of Inl e \<Rightarrow> Inl e | Inr xs \<Rightarrow> Inr (x # xs)))"

text \<open>SQL conjunction over three-valued booleans.\<close>

definition and3 :: "bool option \<Rightarrow> bool option \<Rightarrow> bool option" where
  "and3 a b =
     (if a = Some False \<or> b = Some False then Some False
      else if a = Some True \<and> b = Some True then Some True
      else None)"

fun ExecuteExpression ::
  "(real \<Rightarrow> real \<Rightarrow> real)
     \<Rightarrow> Expression \<Rightarrow> Datum list \<Rightarrow> Exception + Datum" where
  "ExecuteExpression float_add (BoundReferenceExpression t i) row = vector_at row i"
| "ExecuteExpression float_add (BoundFunctionExpression t f cs) row =
     (case sequence (map (\<lambda>c. ExecuteExpression float_add c row) cs) of
        Inl e \<Rightarrow> Inl e
      | Inr ds \<Rightarrow> ExecuteFunction float_add f ds)"
| "ExecuteExpression float_add (BoundOperatorExpression OPERATOR_IS_NOT_NULL t [c]) row =
     (case ExecuteExpression float_add c row of
        Inl e \<Rightarrow> Inl e
      | Inr d \<Rightarrow> Inr (BOOLEAN_D (d \<noteq> NULL_D)))"
| "ExecuteExpression float_add (BoundOperatorExpression OPERATOR_NOT t [c]) row =
     (case ExecuteExpression float_add c row of
        Inl e \<Rightarrow> Inl e
      | Inr d \<Rightarrow>
          (case as_boolean d of
             Inl e \<Rightarrow> Inl e
           | Inr b \<Rightarrow> Inr (boolean_datum (map_option Not b))))"
| "ExecuteExpression float_add (BoundConjunctionExpression CONJUNCTION_AND [l, r]) row =
     (case ExecuteExpression float_add l row of
        Inl e \<Rightarrow> Inl e
      | Inr dl \<Rightarrow>
          (case ExecuteExpression float_add r row of
             Inl e \<Rightarrow> Inl e
           | Inr dr \<Rightarrow>
               (case as_boolean dl of
                  Inl e \<Rightarrow> Inl e
                | Inr bl \<Rightarrow>
                    (case as_boolean dr of
                       Inl e \<Rightarrow> Inl e
                     | Inr br \<Rightarrow> Inr (boolean_datum (and3 bl br))))))"
| "ExecuteExpression float_add _ row = Inl (InternalException ''expression not modelled'')"


section \<open>Physical operators of the index build\<close>

datatype OrderType = ASCENDING | DESCENDING

datatype OrderByNullType = NULLS_FIRST | NULLS_LAST

datatype BoundOrderByNode = BoundOrderByNode OrderType OrderByNullType Expression

text \<open>
  Physical operators, with the fields their constructors receive and the list of
  children last. \<open>PhysicalTableScan\<close> stands for the scan handed to \<open>CreatePlan\<close>, given
  by the rows it yields. \<open>PhysicalCreateRTreeIndex\<close> keeps the table, the column ids, the
  unbound key expressions and the estimated cardinality.
\<close>

datatype PhysicalOperator =
    PhysicalTableScan "Datum list list"
  | PhysicalProjection "LogicalType list" "Expression list" nat "PhysicalOperator list"
  | PhysicalFilter "LogicalType list" "Expression list" nat "PhysicalOperator list"
  | PhysicalOrder "LogicalType list" "BoundOrderByNode list" "nat list" nat
      "PhysicalOperator list"
  | PhysicalCreateRTreeIndex string "nat list" "Expression list" nat "PhysicalOperator list"

text \<open>\<open>op.children.push_back(child)\<close>.\<close>

fun children_push_back :: "PhysicalOperator \<Rightarrow> PhysicalOperator \<Rightarrow> PhysicalOperator" where
  "children_push_back (PhysicalTableScan rows) c = PhysicalTableScan rows"
| "children_push_back (PhysicalProjection ts es n cs) c = PhysicalProjection ts es n (cs @ [c])"
| "children_push_back (PhysicalFilter ts es n cs) c = PhysicalFilter ts es n (cs @ [c])"
| "children_push_back (PhysicalOrder ts os ps n cs) c = PhysicalOrder ts os ps n (cs @ [c])"
| "children_push_back (PhysicalCreateRTreeIndex t ids es n cs) c =
     PhysicalCreateRTreeIndex t ids es n (cs @ [c])"

text \<open>The logical operator that \<open>CreatePlan\<close> receives (\<open>input.op\<close>).\<close>

record LogicalCreateIndex =
  unbound_expressions :: "Expression list"
  expressions :: "Expression list"
  scan_types :: "LogicalType list"
  info_column_ids :: "nat list"
  table :: string
  estimated_cardinality :: nat

text \<open>\<open>CreateNullFilter\<close>: the filter \<open>(#0 IS NOT NULL) AND (NOT ST_IsEmpty(#0))\<close>.\<close>

definition CreateNullFilter :: "LogicalType list \<Rightarrow> nat \<Rightarrow> Exception + PhysicalOperator" where
  "CreateNullFilter types est =
     (case vector_at types 0 of
        Inl e \<Rightarrow> Inl e
      | Inr t0 \<Rightarrow>
          (let bound_ref = BoundReferenceExpression t0 0;
               is_not_null_expr =
                 BoundOperatorExpression OPERATOR_IS_NOT_NULL BOOLEAN [bound_ref];
               is_empty_expr =
                 BoundFunctionExpression BOOLEAN ST_IsEmpty_GEOMETRY [bound_ref];
               is_not_empty_expr =
                 BoundOperatorExpression OPERATOR_NOT BOOLEAN [is_empty_expr];
               and_expr =
                 BoundConjunctionExpression CONJUNCTION_AND
                   [is_not_null_expr, is_not_empty_expr]
           in Inr (PhysicalFilter types [and_expr] est [])))"

text \<open>\<open>CreateBoundingBoxProjection\<close>: \<open>ST_Extent_Approx(#0)\<close> and the row id \<open>#1\<close>.\<close>

definition CreateBoundingBoxProjection :: "LogicalType list \<Rightarrow> nat \<Rightarrow> PhysicalOperator" where
  "CreateBoundingBoxProjection types est =
     (let geom_ref_expr = BoundReferenceExpression GEOMETRY 0;
          bbox_expr =
            BoundFunctionExpression BOX_2DF ST_Extent_Approx_GEOMETRY [geom_ref_expr];
          rowid_expr = BoundReferenceExpression ROW_TYPE 1
      in PhysicalProjection types [bbox_expr, rowid_expr] est [])"

text \<open>
  \<open>CreateOrderByMinX\<close>: order ascending, NULLs first, by \<open>st_xmin(st_centroid(#0))\<close>,
  keeping columns 0 and 1.
\<close>

definition CreateOrderByMinX :: "LogicalType list \<Rightarrow> nat \<Rightarrow> PhysicalOperator" where
  "CreateOrderByMinX types est =
     (let centroid_expr =
            BoundFunctionExpression POINT_2D ST_Centroid_BOX_2DF
              [BoundReferenceExpression BOX_2DF 0];
          xmin_expr = BoundFunctionExpression DOUBLE ST_XMin_POINT_2D [centroid_expr];
          orders = [BoundOrderByNode ASCENDING NULLS_FIRST xmin_expr];
          projections = [0, 1]
      in PhysicalOrder types orders projections est [])"

text \<open>
  \<open>RTreeIndex::CreatePlan\<close>. \<open>IsConsistent\<close> is the engine's test that an expression has
  no side effects, taken as a parameter. The index of the row id column,
  \<open>scan_types.size() - 1\<close>, is computed in unsigned 64-bit arithmetic.
\<close>

definition CreatePlan ::
  "(Expression \<Rightarrow> bool) \<Rightarrow> LogicalCreateIndex \<Rightarrow> PhysicalOperator
     \<Rightarrow> Exception + PhysicalOperator" where
  "CreatePlan IsConsistent op table_scan =
     (if length (unbound_expressions op) \<noteq> 1 then
        Inl (BinderException ''RTree indexes can only be created over a single column.'')
      else
        (let expr = unbound_expressions op ! 0 in
         if expr_return_type expr \<noteq> GEOMETRY then
           Inl (BinderException ''RTree indexes can only be created over GEOMETRY columns.'')
         else if \<not> IsConsistent expr then
           Inl (BinderException
                  ''RTree index keys cannot contain expressions with side effects.'')
         else
           (case vector_at (expressions op) 0 of
              Inl e \<Rightarrow> Inl e
            | Inr geom_expr \<Rightarrow>
                (let est = estimated_cardinality op;
                     new_column_types = [expr_return_type geom_expr, ROW_TYPE];
                     select_list =
                       [geom_expr,
                        BoundReferenceExpression ROW_TYPE
                          ((length (scan_types op) + 2 ^ 64 - 1) mod 2 ^ 64)];
                     projection =
                       children_push_back
                         (PhysicalProjection new_column_types select_list est [])
                         table_scan
                 in case CreateNullFilter new_column_types est of
                      Inl e \<Rightarrow> Inl e
                    | Inr null_filter0 \<Rightarrow>
                        (let null_filter = children_push_back null_filter0 projection;
                             projected_types = [BOX_2DF, ROW_TYPE];
                             bbox_proj =
                               children_push_back
                                 (CreateBoundingBoxProjection projected_types est)
                                 null_filter;
                             physical_order =
                               children_push_back
                                 (CreateOrderByMinX projected_types est) bbox_proj;
                             physical_create_index =
                               PhysicalCreateRTreeIndex (table op) (info_column_ids op)
                                 (unbound_expressions op) est []
                         in Inr (children_push_back physical_create_index
                                   physical_order))))))"


section \<open>Execution of the build pipeline\<close>

definition as_double :: "Datum \<Rightarrow> Exception + real option" where
  "as_double d =
     (case d of NULL_D \<Rightarrow> Inr None | DOUBLE_D x \<Rightarrow> Inr (Some x)
      | _ \<Rightarrow> Inl (InternalException ''DOUBLE expected''))"

text \<open>A projection evaluates its select list on every row.\<close>

definition project_rows ::
  "(real \<Rightarrow> real \<Rightarrow> real)
     \<Rightarrow> Expression list \<Rightarrow> Datum list list \<Rightarrow> Exception + Datum list list" where
  "project_rows float_add select_list rows =
     sequence (map (\<lambda>row. sequence (map (\<lambda>e. ExecuteExpression float_add e row) select_list)) rows)"

text \<open>A filter keeps the rows on which its predicate evaluates to true (not false or NULL).\<close>

fun select_rows ::
  "(real \<Rightarrow> real \<Rightarrow> real)
     \<Rightarrow> Expression \<Rightarrow> Datum list list \<Rightarrow> Exception + Datum list list" where
  "select_rows float_add p [] = Inr []"
| "select_rows float_add p (row # rows) =
     (case ExecuteExpression float_add p row of
        Inl e \<Rightarrow> Inl e
      | Inr d \<Rightarrow>
          (case select_rows float_add p rows of
             Inl e \<Rightarrow> Inl e
           | Inr rs \<Rightarrow> Inr (if d = BOOLEAN_D True then row # rs else rs)))"

text \<open>The sort key of every row: the order expression's value, a DOUBLE or NULL.\<close>

fun order_keys ::
  "(real \<Rightarrow> real \<Rightarrow> real)
     \<Rightarrow> Expression \<Rightarrow> Datum list list \<Rightarrow> Exception + (real option \<times> Datum list) list" where
  "order_keys float_add e [] = Inr []"
| "order_keys float_add e (row # rows) =
     (case ExecuteExpression float_add e row of
        Inl x \<Rightarrow> Inl x
      | Inr d \<Rightarrow>
          (case as_double d of
             Inl x \<Rightarrow> Inl x
           | Inr k \<Rightarrow>
               (case order_keys float_add e rows of
                  Inl x \<Rightarrow> Inl x
                | Inr krs \<Rightarrow> Inr ((k, row) # krs))))"

text \<open>
  An ascending order with NULLs first sorts by the key in the order of \<open>real option\<close>,
  where \<open>None\<close> is least; the sort is taken to be stable. Then the columns named by the
  projection list are kept.
\<close>

definition order_rows ::
  "(real \<Rightarrow> real \<Rightarrow> real)
     \<Rightarrow> Expression \<Rightarrow> nat list \<Rightarrow> Datum list list \<Rightarrow> Exception + Datum list list" where
  "order_rows float_add e projections rows =
     (case order_keys float_add e rows of
        Inl x \<Rightarrow> Inl x
      | Inr krs \<Rightarrow>
          sequence (map (\<lambda>(k, row). sequence (map (vector_at row) projections))
                        (sort_key fst krs)))"

fun execute ::
  "(real \<Rightarrow> real \<Rightarrow> real)
     \<Rightarrow> PhysicalOperator \<Rightarrow> Exception + Datum list list" where
  "execute float_add (PhysicalTableScan rows) = Inr rows"
| "execute float_add (PhysicalProjection ts select_list n [child]) =
     (case execute float_add child of
        Inl e \<Rightarrow> Inl e
      | Inr rows \<Rightarrow> project_rows float_add select_list rows)"
| "execute float_add (PhysicalFilter ts [p] n [child]) =
     (case execute float_add child of
        Inl e \<Rightarrow> Inl e
      | Inr rows \<Rightarrow> select_rows float_add p rows)"
| "execute float_add (PhysicalOrder ts [BoundOrderByNode ASCENDING NULLS_FIRST e] projections n [child]) =
     (case execute float_add child of
        Inl x \<Rightarrow> Inl x
      | Inr rows \<Rightarrow> order_rows float_add e projections rows)"
| "execute float_add _ = Inl (InternalException ''operator not modelled'')"

text \<open>
  The rows that reach the sorter (the input of the order operator) and the rows that reach
  the tree builder (the input of the index creation operator) of a build plan.
\<close>

definition sorter_input ::
  "(real \<Rightarrow> real \<Rightarrow> real)
     \<Rightarrow> PhysicalOperator \<Rightarrow> Exception + Datum list list" where
  "sorter_input float_add plan =
     (case plan of
        PhysicalCreateRTreeIndex t ids es n [PhysicalOrder ts os ps m [child]] \<Rightarrow> execute float_add child
      | _ \<Rightarrow> Inl (InternalException ''not an index build plan''))"

definition index_input ::
  "(real \<Rightarrow> real \<Rightarrow> real)
     \<Rightarrow> PhysicalOperator \<Rightarrow> Exception + Datum list list" where
  "index_input float_add plan =
     (case plan of
        PhysicalCreateRTreeIndex t ids es n [child] \<Rightarrow> execute float_add child
      | _ \<Rightarrow> Inl (InternalException ''not an index build plan''))"

text \<open>The scan rows \<open>(geometry, row_id)\<close> of the build, and the key column reference.\<close>

definition scan_rows :: "(geometry_t option \<times> int) list \<Rightarrow> Datum list list" where
  "scan_rows input = map (\<lambda>(g, rid). [geometry_datum g, BIGINT_D rid]) input"

definition geometry_column_index :: "string \<Rightarrow> nat \<Rightarrow> LogicalCreateIndex" where
  "geometry_column_index tbl est =
     \<lparr>unbound_expressions = [BoundColumnRefExpression GEOMETRY 0 0],
      expressions = [BoundReferenceExpression GEOMETRY 0],
      scan_types = [GEOMETRY, ROW_TYPE],
      info_column_ids = [0],
      table = tbl,
      estimated_cardinality = est\<rparr>"


section \<open>Named parts of the build plan, for stating its properties\<close>

text \<open>The predicate of the filter that \<open>CreateNullFilter\<close> builds over a key of type \<open>t0\<close>.\<close>

definition null_filter_expr :: "LogicalType \<Rightarrow> Expression" where
  "null_filter_expr t0 =
     BoundConjunctionExpression CONJUNCTION_AND
       [BoundOperatorExpression OPERATOR_IS_NOT_NULL BOOLEAN [BoundReferenceExpression t0 0],
        BoundOperatorExpression OPERATOR_NOT BOOLEAN
          [BoundFunctionExpression BOOLEAN ST_IsEmpty_GEOMETRY [BoundReferenceExpression t0 0]]]"

text \<open>The select list of \<open>CreateBoundingBoxProjection\<close> and the order expression of
  \<open>CreateOrderByMinX\<close>.\<close>

definition bbox_select_list :: "Expression list" where
  "bbox_select_list =
     [BoundFunctionExpression BOX_2DF ST_Extent_Approx_GEOMETRY [BoundReferenceExpression GEOMETRY 0],
      BoundReferenceExpression ROW_TYPE 1]"

definition order_expr :: Expression where
  "order_expr =
     BoundFunctionExpression DOUBLE ST_XMin_POINT_2D
       [BoundFunctionExpression POINT_2D ST_Centroid_BOX_2DF [BoundReferenceExpression BOX_2DF 0]]"

text \<open>The first projection's select list: the key expression and the row id column.\<close>

definition key_select_list :: "LogicalCreateIndex \<Rightarrow> Expression list" where
  "key_select_list op =
     [expressions op ! 0,
      BoundReferenceExpression ROW_TYPE ((length (scan_types op) + 2 ^ 64 - 1) mod 2 ^ 64)]"

text \<open>
  The pipeline scan, key projection, null/empty filter, bounding box projection, order,
  index creation, written out.
\<close>

definition index_build_plan :: "LogicalCreateIndex \<Rightarrow> PhysicalOperator \<Rightarrow> PhysicalOperator" where
  "index_build_plan op table_scan =
     (let est = estimated_cardinality op;
          key_types = [expr_return_type (expressions op ! 0), ROW_TYPE]
      in PhysicalCreateRTreeIndex (table op) (info_column_ids op) (unbound_expressions op) est
           [PhysicalOrder [BOX_2DF, ROW_TYPE]
              [BoundOrderByNode ASCENDING NULLS_FIRST order_expr] [0, 1] est
              [PhysicalProjection [BOX_2DF, ROW_TYPE] bbox_select_list est
                 [PhysicalFilter key_types
                    [null_filter_expr (expr_return_type (expressions op ! 0))] est
                    [PhysicalProjection key_types (key_select_list op) est [table_scan]]]]])"

text \<open>
  The three grounds of rejection: not exactly one key expression, a key whose return type
  is not GEOMETRY, a key that is not consistent.
\<close>

definition key_rejected :: "(Expression \<Rightarrow> bool) \<Rightarrow> LogicalCreateIndex \<Rightarrow> bool" where
  "key_rejected IsConsistent op =
     (length (unbound_expressions op) \<noteq> 1
      \<or> expr_return_type (unbound_expressions op ! 0) \<noteq> GEOMETRY
      \<or> \<not> IsConsistent (unbound_expressions op ! 0))"

text \<open>An engine in which every expression is free of side effects, for concrete runs.\<close>

definition no_side_effects :: "Expression \<Rightarrow> bool" where
  "no_side_effects e = True"

text \<open>
  Binary32 addition is exact when the sum of the two values is itself a binary32 value. The
  concrete runs below add only small integers (0 + 10, 1 + 2, 0 + 0), so they use the
  exact sum.
\<close>

definition exact_add :: "real \<Rightarrow> real \<Rightarrow> real" where
  "exact_add a b = a + b"

text \<open>
  An addition that rounds as binary32 addition does at one sum: 16777217 is not a binary32
  value and rounds to 16777216. It is exact at the other sums of the run that uses it.
\<close>

definition rounding_add :: "real \<Rightarrow> real \<Rightarrow> real" where
  "rounding_add a b = (if a + b = 16777217 then 16777216 else a + b)"

text \<open>Planning the build and running it up to the sorter, and up to the tree builder.\<close>

definition build_sorter_input ::
  "(real \<Rightarrow> real \<Rightarrow> real)
     \<Rightarrow> (Expression \<Rightarrow> bool) \<Rightarrow> LogicalCreateIndex \<Rightarrow> PhysicalOperator \<Rightarrow> Exception + Datum list list" where
  "build_sorter_input float_add IsConsistent op table_scan =
     (case CreatePlan IsConsistent op table_scan of
        Inl e \<Rightarrow> Inl e
      | Inr plan \<Rightarrow> sorter_input float_add plan)"

definition build_index_input ::
  "(real \<Rightarrow> real \<Rightarrow> real)
     \<Rightarrow> (Expression \<Rightarrow> bool) \<Rightarrow> LogicalCreateIndex \<Rightarrow> PhysicalOperator \<Rightarrow> Exception + Datum list list" where
  "build_index_input float_add IsConsistent op table_scan =
     (case CreatePlan IsConsistent op table_scan of
        Inl e \<Rightarrow> Inl e
      | Inr plan \<Rightarrow> index_input float_add plan)"

text \<open>Rows \<open>(bbox, row_id)\<close> as the bounding box projection emits them.\<close>

definition bbox_rows :: "(Box2D option \<times> int) list \<Rightarrow> Datum list list" where
  "bbox_rows entries = map (\<lambda>(b, rid). [box_datum b, BIGINT_D rid]) entries"

text \<open>A row is non_null_non_empty when its geometry is not NULL and has at least one vertex.\<close>

definition non_null_non_empty :: "geometry_t option \<times> int \<Rightarrow> bool" where
  "non_null_non_empty r = (case fst r of None \<Rightarrow> False | Some blob \<Rightarrow> vertex_count blob \<noteq> 0)"

text \<open>The sort key of a bounding box: the x coordinate of its centroid.\<close>

definition order_key ::
  "(real \<Rightarrow> real \<Rightarrow> real) \<Rightarrow> Box2D option \<Rightarrow> real option" where
  "order_key float_add b = ST_XMin_ExecutePoint (ST_Centroid_ExecuteBox float_add b)"

text \<open>
  The bounding box in column 0 of an emitted row, and two orders on emitted rows: by the
  minimum x of the box, and by the x of the centroid of the box, \<open>(min_x + max_x) * 0.5\<close>
  with the sum taken by \<open>float_add\<close>; NULL comes first.
\<close>

definition bbox_of_row :: "Datum list \<Rightarrow> Box2D option" where
  "bbox_of_row row = (case row of BOX_2DF_D b # rest \<Rightarrow> Some b | _ \<Rightarrow> None)"

definition sorted_by_min_x :: "Datum list list \<Rightarrow> bool" where
  "sorted_by_min_x rows = sorted (map (\<lambda>row. ST_XMin_ExecuteBox (bbox_of_row row)) rows)"

definition sorted_by_centre_x ::
  "(real \<Rightarrow> real \<Rightarrow> real) \<Rightarrow> Datum list list \<Rightarrow> bool" where
  "sorted_by_centre_x float_add rows =
     sorted (map (\<lambda>row. map_option (\<lambda>b. float_add (min_x b) (max_x b) * 0.5)
                          (bbox_of_row row)) rows)"

definition wide_box :: Box2D where
  "wide_box = \<lparr>min_x = 0, min_y = 0, max_x = 10, max_y = 0\<rparr>"

definition narrow_box :: Box2D where
  "narrow_box = \<lparr>min_x = 1, min_y = 0, max_x = 2, max_y = 0\<rparr>"

definition geometry_with_bounds :: "Box2D \<Rightarrow> geometry_t" where
  "geometry_with_bounds b = \<lparr>cached_bounds = Some b, vertex_count = 2\<rparr>"


text \<open>Concrete rows for running the build: a NULL geometry, an empty one, a segment.\<close>

definition empty_geometry :: geometry_t where
  "empty_geometry = \<lparr>cached_bounds = None, vertex_count = 0\<rparr>"

definition three_rows :: "(geometry_t option \<times> int) list" where
  "three_rows =
     [(None, 1), (Some empty_geometry, 2), (Some (geometry_with_bounds narrow_box), 3)]"

text \<open>A point: one vertex, and no cached bounding box in its blob.\<close>

definition point_geometry :: geometry_t where
  "point_geometry = \<lparr>cached_bounds = None, vertex_count = 1\<rparr>"

text \<open>Two segments: the first starts further left, the second has its centre further left.\<close>

definition two_boxes :: "(geometry_t option \<times> int) list" where
  "two_boxes =
     [(Some (geometry_with_bounds wide_box), 1), (Some (geometry_with_bounds narrow_box), 2)]"


section \<open>The plan rewriter: data\<close>

text \<open>
  Filters pushed into a scan. \<open>ToExpression\<close> belongs to the engine: an expression filter
  yields its expression with every \<open>BoundReferenceExpression\<close> replaced by the given
  column; a constant filter yields the comparison of the column with its constant.
\<close>

datatype TableFilter = ExpressionFilter Expression | ConstantFilter ExpressionType Value

fun ReplaceExpressionRecursive :: "Expression \<Rightarrow> Expression \<Rightarrow> Expression" where
  "ReplaceExpressionRecursive column (BoundReferenceExpression t i) = column"
| "ReplaceExpressionRecursive column (BoundFunctionExpression t f cs) =
     BoundFunctionExpression t f (map (ReplaceExpressionRecursive column) cs)"
| "ReplaceExpressionRecursive column (BoundOperatorExpression k t cs) =
     BoundOperatorExpression k t (map (ReplaceExpressionRecursive column) cs)"
| "ReplaceExpressionRecursive column (BoundConjunctionExpression k cs) =
     BoundConjunctionExpression k (map (ReplaceExpressionRecursive column) cs)"
| "ReplaceExpressionRecursive column (BoundComparisonExpression k cs) =
     BoundComparisonExpression k (map (ReplaceExpressionRecursive column) cs)"
| "ReplaceExpressionRecursive column e = e"

fun ToExpression :: "TableFilter \<Rightarrow> Expression \<Rightarrow> Expression" where
  "ToExpression (ExpressionFilter expr) column = ReplaceExpressionRecursive column expr"
| "ToExpression (ConstantFilter k v) column =
     BoundComparisonExpression k [column, BoundConstantExpression v]"

text \<open>
  An R-tree index of a table: the table columns it covers (\<open>GetColumnIds\<close>) and its
  unbound key expressions.
\<close>

record RTreeIndex =
  index_name :: string
  index_column_ids :: "nat list"
  index_unbound_expressions :: "Expression list"

text \<open>
  The table of a scan: whether it is a native table, and the R-tree indexes that
  \<open>BindAndScan<RTreeIndex>\<close> visits, in order.
\<close>

record TableCatalogEntry =
  table_name :: string
  IsDuckTable :: bool
  indexes :: "RTreeIndex list"

record RTreeIndexScanBindData =
  bind_table :: string
  bind_index :: RTreeIndex
  bind_bbox :: Box2D

datatype FunctionData = TableScanBindData | RTreeIndexScanData RTreeIndexScanBindData

text \<open>
  \<open>LogicalGet\<close>. \<open>function_name\<close> is \<open>get.function.name\<close>; \<open>dynamic_filters\<close> tells
  whether the dynamic filter slot is set and has filters; \<open>column_ids\<close> holds the primary
  index of each projected column; \<open>table_filters\<close> is the ordered map from column id to
  pushed-down filter.
\<close>

record LogicalGet =
  function_name :: string
  dynamic_filters :: bool
  get_table :: TableCatalogEntry
  table_index :: nat
  column_ids :: "nat list"
  table_filters :: "(nat \<times> TableFilter) list"
  projection_ids :: "nat list"
  types :: "LogicalType list"
  returned_types :: "LogicalType list"
  bind_data :: FunctionData
  has_estimated_cardinality :: bool
  get_estimated_cardinality :: nat

text \<open>
  Logical plans: a filter with its expressions, projection map and children; a scan with
  its children; any other operator, by the name of its type, with its children.
\<close>

datatype LogicalOperator =
    LOGICAL_FILTER "Expression list" "nat list" "LogicalOperator list"
  | LOGICAL_GET LogicalGet "LogicalOperator list"
  | LOGICAL_OTHER string "LogicalOperator list"


section \<open>The plan rewriter: \<open>RTreeIndexScanOptimizer\<close>\<close>

text \<open>
  The search loops of \<open>RewriteIndexExpression\<close> and of the filter pull-up: the first
  position \<open>i\<close>, counted from \<open>i0\<close>, whose column id is the wanted one.
\<close>

fun find_primary_index :: "nat list \<Rightarrow> nat \<Rightarrow> nat \<Rightarrow> nat option" where
  "find_primary_index [] wanted i = None"
| "find_primary_index (c # cs) wanted i =
     (if c = wanted then Some i else find_primary_index cs wanted (Suc i))"

text \<open>
  \<open>RewriteIndexExpression\<close>, returning the rewritten expression and the flag
  \<open>rewrite_possible\<close>. A column reference gets the scan's table index, and the position of
  its column among the scan's column ids when it is there; when it is not, the flag is
  cleared.
\<close>

fun RewriteIndexExpression ::
      "RTreeIndex \<Rightarrow> LogicalGet \<Rightarrow> Expression \<Rightarrow> bool \<Rightarrow> Exception + (Expression \<times> bool)"
  and RewriteIndexExpression_children ::
      "RTreeIndex \<Rightarrow> LogicalGet \<Rightarrow> Expression list \<Rightarrow> bool
         \<Rightarrow> Exception + (Expression list \<times> bool)" where
  "RewriteIndexExpression idx get (BoundColumnRefExpression t ti ci) rp =
     (case vector_at (index_column_ids idx) ci of
        Inl e \<Rightarrow> Inl e
      | Inr referenced_column \<Rightarrow>
          (case find_primary_index (column_ids get) referenced_column 0 of
             Some i \<Rightarrow> Inr (BoundColumnRefExpression t (table_index get) i, rp)
           | None \<Rightarrow> Inr (BoundColumnRefExpression t (table_index get) ci, False)))"
| "RewriteIndexExpression idx get (BoundFunctionExpression t f cs) rp =
     (case RewriteIndexExpression_children idx get cs rp of
        Inl e \<Rightarrow> Inl e
      | Inr (cs', rp') \<Rightarrow> Inr (BoundFunctionExpression t f cs', rp'))"
| "RewriteIndexExpression idx get (BoundOperatorExpression k t cs) rp =
     (case RewriteIndexExpression_children idx get cs rp of
        Inl e \<Rightarrow> Inl e
      | Inr (cs', rp') \<Rightarrow> Inr (BoundOperatorExpression k t cs', rp'))"
| "RewriteIndexExpression idx get (BoundConjunctionExpression k cs) rp =
     (case RewriteIndexExpression_children idx get cs rp of
        Inl e \<Rightarrow> Inl e
      | Inr (cs', rp') \<Rightarrow> Inr (BoundConjunctionExpression k cs', rp'))"
| "RewriteIndexExpression idx get (BoundComparisonExpression k cs) rp =
     (case RewriteIndexExpression_children idx get cs rp of
        Inl e \<Rightarrow> Inl e
      | Inr (cs', rp') \<Rightarrow> Inr (BoundComparisonExpression k cs', rp'))"
| "RewriteIndexExpression idx get (BoundReferenceExpression t i) rp =
     Inr (BoundReferenceExpression t i, rp)"
| "RewriteIndexExpression idx get (BoundConstantExpression v) rp =
     Inr (BoundConstantExpression v, rp)"
| "RewriteIndexExpression_children idx get [] rp = Inr ([], rp)"
| "RewriteIndexExpression_children idx get (c # cs) rp =
     (case RewriteIndexExpression idx get c rp of
        Inl e \<Rightarrow> Inl e
      | Inr (c', rp') \<Rightarrow>
          (case RewriteIndexExpression_children idx get cs rp' of
             Inl e \<Rightarrow> Inl e
           | Inr (cs', rp'') \<Rightarrow> Inr (c' # cs', rp'')))"

text \<open>
  \<open>RewriteIndexExpressionForFilter\<close>: a column reference whose column index is the
  filter's column becomes \<open>BoundReferenceExpression\<close> 0; any other clears the flag.
\<close>

fun RewriteIndexExpressionForFilter :: "Expression \<Rightarrow> nat \<Rightarrow> bool \<Rightarrow> Expression \<times> bool"
  and RewriteIndexExpressionForFilter_children ::
      "Expression list \<Rightarrow> nat \<Rightarrow> bool \<Rightarrow> Expression list \<times> bool" where
  "RewriteIndexExpressionForFilter (BoundColumnRefExpression t ti ci) filter_idx rp =
     (if ci \<noteq> filter_idx then (BoundColumnRefExpression t ti ci, False)
      else (BoundReferenceExpression t 0, rp))"
| "RewriteIndexExpressionForFilter (BoundFunctionExpression t f cs) filter_idx rp =
     (case RewriteIndexExpressionForFilter_children cs filter_idx rp of
        (cs', rp') \<Rightarrow> (BoundFunctionExpression t f cs', rp'))"
| "RewriteIndexExpressionForFilter (BoundOperatorExpression k t cs) filter_idx rp =
     (case RewriteIndexExpressionForFilter_children cs filter_idx rp of
        (cs', rp') \<Rightarrow> (BoundOperatorExpression k t cs', rp'))"
| "RewriteIndexExpressionForFilter (BoundConjunctionExpression k cs) filter_idx rp =
     (case RewriteIndexExpressionForFilter_children cs filter_idx rp of
        (cs', rp') \<Rightarrow> (BoundConjunctionExpression k cs', rp'))"
| "RewriteIndexExpressionForFilter (BoundComparisonExpression k cs) filter_idx rp =
     (case RewriteIndexExpressionForFilter_children cs filter_idx rp of
        (cs', rp') \<Rightarrow> (BoundComparisonExpression k cs', rp'))"
| "RewriteIndexExpressionForFilter (BoundReferenceExpression t i) filter_idx rp =
     (BoundReferenceExpression t i, rp)"
| "RewriteIndexExpressionForFilter (BoundConstantExpression v) filter_idx rp =
     (BoundConstantExpression v, rp)"
| "RewriteIndexExpressionForFilter_children [] filter_idx rp = ([], rp)"
| "RewriteIndexExpressionForFilter_children (c # cs) filter_idx rp =
     (case RewriteIndexExpressionForFilter c filter_idx rp of
        (c', rp') \<Rightarrow>
          (case RewriteIndexExpressionForFilter_children cs filter_idx rp' of
             (cs', rp'') \<Rightarrow> (c' # cs', rp'')))"

text \<open>\<open>IsSpatialPredicate\<close>. No function of the rewriter calls it.\<close>

definition IsSpatialPredicate :: "ScalarFunction \<Rightarrow> string list \<Rightarrow> bool" where
  "IsSpatialPredicate f predicates =
     (if name f \<notin> set predicates then False
      else if length (arguments f) < 2 then False
      else if arguments f ! 0 \<noteq> GEOMETRY then False
      else if arguments f ! 1 \<noteq> GEOMETRY then False
      else if return_type f \<noteq> BOOLEAN then False
      else True)"

text \<open>\<open>TryGetBoundingBox\<close>: the cached bounds of the constant's blob, if any.\<close>

definition TryGetBoundingBox :: "Value \<Rightarrow> Box2D option" where
  "TryGetBoundingBox v = TryGetCachedBounds (str_value v)"

definition spatial_predicates :: "string list" where
  "spatial_predicates =
     [''ST_Equals'', ''ST_Intersects'', ''ST_Touches'', ''ST_Crosses'', ''ST_Within'',
      ''ST_Contains'', ''ST_Overlaps'', ''ST_Covers'', ''ST_CoveredBy'',
      ''ST_ContainsProperly'']"

fun is_bound_constant :: "Expression \<Rightarrow> bool" where
  "is_bound_constant (BoundConstantExpression v) = True"
| "is_bound_constant e = False"

text \<open>
  The engine's \<open>FunctionExpressionMatcher\<close> as \<open>TryOptimizeGet\<close> sets it up: the
  expression is a bound function whose name is one of the given predicates; the policy is
  unordered over two matchers, so the function has exactly two children, one equal to the
  index expression and the other a bound constant. The bindings are the expression, the
  child equal to the index expression, and the constant. No matcher on the return type or
  on the argument types is set.
\<close>

definition Match ::
  "string list \<Rightarrow> Expression \<Rightarrow> Expression \<Rightarrow> (Expression \<times> Expression \<times> Expression) option" where
  "Match predicates index_expr filter_expr =
     (case filter_expr of
        BoundFunctionExpression t f [a, b] \<Rightarrow>
          (if name f \<notin> set predicates then None
           else if a = index_expr \<and> is_bound_constant b then Some (filter_expr, a, b)
           else if b = index_expr \<and> is_bound_constant a then Some (filter_expr, b, a)
           else None)
      | _ \<Rightarrow> None)"

text \<open>
  The callback that \<open>TryOptimizeGet\<close> hands to \<open>BindAndScan\<close>, for one index: the bind
  data when the index serves the filter expression, \<open>None\<close> when the callback returns
  false.
\<close>

definition TryIndex ::
  "LogicalGet \<Rightarrow> nat option \<Rightarrow> Expression \<Rightarrow> RTreeIndex
     \<Rightarrow> Exception + RTreeIndexScanBindData option" where
  "TryIndex get filter_column_idx filter_expr index_entry =
     (case vector_at (index_unbound_expressions index_entry) 0 of
        Inl e \<Rightarrow> Inl e
      | Inr index_expr0 \<Rightarrow>
          (case (case filter_column_idx of
                   Some filter_idx \<Rightarrow>
                     Inr (RewriteIndexExpressionForFilter index_expr0 filter_idx True)
                 | None \<Rightarrow> RewriteIndexExpression index_entry get index_expr0 True) of
             Inl e \<Rightarrow> Inl e
           | Inr (index_expr, rewrite_possible) \<Rightarrow>
               (if \<not> rewrite_possible then Inr None
                else
                  (case Match spatial_predicates index_expr filter_expr of
                     None \<Rightarrow> Inr None
                   | Some (b0, b1, b2) \<Rightarrow>
                       (case b2 of
                          BoundConstantExpression constant_value \<Rightarrow>
                            (case TryGetBoundingBox constant_value of
                               None \<Rightarrow> Inr None
                             | Some bbox \<Rightarrow>
                                 Inr (Some \<lparr>bind_table = table_name (get_table get),
                                            bind_index = index_entry,
                                            bind_bbox = bbox\<rparr>))
                        | _ \<Rightarrow> Inl (InternalException ''Failed to cast expression''))))))"

text \<open>\<open>BindAndScan\<close>: the callback on each index in turn, until one returns true.\<close>

fun BindAndScan ::
  "(RTreeIndex \<Rightarrow> Exception + 'a option) \<Rightarrow> RTreeIndex list \<Rightarrow> Exception + 'a option" where
  "BindAndScan f [] = Inr None"
| "BindAndScan f (i # is) =
     (case f i of
        Inl e \<Rightarrow> Inl e
      | Inr (Some bd) \<Rightarrow> Inr (Some bd)
      | Inr None \<Rightarrow> BindAndScan f is)"

text \<open>
  The loop \<open>id = get.projection_ids[id]\<close> over the filter's projection map, in place: the
  exception raised, if any, and the map as the loop leaves it.
\<close>

fun remap_projection_map :: "nat list \<Rightarrow> nat list \<Rightarrow> Exception option \<times> nat list" where
  "remap_projection_map proj_ids [] = (None, [])"
| "remap_projection_map proj_ids (i # is) =
     (case vector_at proj_ids i of
        Inl e \<Rightarrow> (Some e, i # is)
      | Inr v \<Rightarrow>
          (case remap_projection_map proj_ids is of (r, is') \<Rightarrow> (r, v # is')))"

text \<open>
  The pull-up loop over the scan's table filters: each filter becomes an expression over
  the column reference that has the column's returned type and the position of the
  column among the scan's column ids.
\<close>

fun pullup_filters :: "LogicalGet \<Rightarrow> (nat \<times> TableFilter) list \<Rightarrow> Exception + Expression list" where
  "pullup_filters get [] = Inr []"
| "pullup_filters get ((column_id, f) # rest) =
     (case vector_at (returned_types get) column_id of
        Inl e \<Rightarrow> Inl e
      | Inr t \<Rightarrow>
          (case find_primary_index (column_ids get) column_id 0 of
             None \<Rightarrow> Inl (InternalException ''Could not find column id for filter'')
           | Some i \<Rightarrow>
               (case pullup_filters get rest of
                  Inl e \<Rightarrow> Inl e
                | Inr es \<Rightarrow>
                    Inr (ToExpression f (BoundColumnRefExpression t (table_index get) i)
                         # es))))"

text \<open>
  \<open>TryOptimizeGet\<close>. The arguments are the scan behind \<open>get_ptr\<close> with its children, the
  projection map of the filter above it (\<open>None\<close> for a null \<open>filter\<close>), the optional
  filter column and the filter expression; \<open>cardinality\<close> is the index scan's cardinality
  function (has an estimate, the estimate). The result is the returned flag or the
  exception raised, together with the operator behind \<open>get_ptr\<close> and the filter's
  projection map as the call leaves them.
\<close>

definition TryOptimizeGet ::
  "(RTreeIndexScanBindData \<Rightarrow> bool \<times> nat) \<Rightarrow> LogicalGet \<Rightarrow> LogicalOperator list
     \<Rightarrow> nat list option \<Rightarrow> nat option \<Rightarrow> Expression
     \<Rightarrow> (Exception + bool) \<times> LogicalOperator \<times> nat list option" where
  "TryOptimizeGet cardinality get get_children filter_pm filter_column_idx filter_expr =
     (if function_name get \<noteq> ''seq_scan'' then
        (Inr False, LOGICAL_GET get get_children, filter_pm)
      else if dynamic_filters get then
        (Inr False, LOGICAL_GET get get_children, filter_pm)
      else if \<not> IsDuckTable (get_table get) then
        (Inr False, LOGICAL_GET get get_children, filter_pm)
      else
        (case BindAndScan (TryIndex get filter_column_idx filter_expr)
                (indexes (get_table get)) of
           Inl e \<Rightarrow> (Inl e, LOGICAL_GET get get_children, filter_pm)
         | Inr None \<Rightarrow> (Inr False, LOGICAL_GET get get_children, filter_pm)
         | Inr (Some bd) \<Rightarrow>
             (let get1 = get\<lparr>function_name := ''rtree_index_scan'',
                              has_estimated_cardinality := fst (cardinality bd),
                              get_estimated_cardinality := snd (cardinality bd),
                              bind_data := RTreeIndexScanData bd\<rparr>
              in if table_filters get1 = [] then
                   (Inr True, LOGICAL_GET get1 get_children, filter_pm)
                 else
                   (case (case filter_pm of
                            Some projection_map \<Rightarrow>
                              (if projection_ids get1 \<noteq> [] then
                                 (case remap_projection_map (projection_ids get1)
                                         projection_map of
                                    (r, pm) \<Rightarrow> (r, Some pm))
                               else (None, filter_pm))
                          | None \<Rightarrow> (None, filter_pm)) of
                      (Some e, filter_pm') \<Rightarrow> (Inl e, LOGICAL_GET get1 get_children, filter_pm')
                    | (None, filter_pm') \<Rightarrow>
                        (let get2 = get1\<lparr>projection_ids := [], types := []\<rparr>
                         in case pullup_filters get2 (table_filters get2) of
                              Inl e \<Rightarrow> (Inl e, LOGICAL_GET get2 get_children, filter_pm')
                            | Inr exprs \<Rightarrow>
                                (Inr True,
                                 LOGICAL_FILTER exprs [] [LOGICAL_GET get2 get_children],
                                 filter_pm'))))))"

text \<open>
  The loop of \<open>TryOptimize\<close> over the table filters of a scan: \<open>TryOptimizeGet\<close> on each
  expression filter in turn, until one call returns true or raises. A call that returns
  false leaves the scan as it was.
\<close>

fun try_expression_filters ::
  "(RTreeIndexScanBindData \<Rightarrow> bool \<times> nat) \<Rightarrow> LogicalGet \<Rightarrow> LogicalOperator list
     \<Rightarrow> (nat \<times> TableFilter) list \<Rightarrow> (Exception + bool) \<times> LogicalOperator" where
  "try_expression_filters cardinality get get_children [] =
     (Inr False, LOGICAL_GET get get_children)"
| "try_expression_filters cardinality get get_children ((column_id, ExpressionFilter expr) # rest) =
     (case TryOptimizeGet cardinality get get_children None (Some column_id) expr of
        (Inr False, plan', pm') \<Rightarrow>
          try_expression_filters cardinality get get_children rest
      | (r, plan', pm') \<Rightarrow> (r, plan'))"
| "try_expression_filters cardinality get get_children ((column_id, ConstantFilter k v) # rest) =
     try_expression_filters cardinality get get_children rest"

text \<open>
  \<open>TryOptimize\<close>: the returned flag or the exception raised, and the operator behind
  \<open>plan\<close> as the call leaves it.
\<close>

fun TryOptimize ::
  "(RTreeIndexScanBindData \<Rightarrow> bool \<times> nat) \<Rightarrow> LogicalOperator
     \<Rightarrow> (Exception + bool) \<times> LogicalOperator" where
  "TryOptimize cardinality (LOGICAL_FILTER exprs projection_map children) =
     (if length exprs \<noteq> 1 then
        (Inr False, LOGICAL_FILTER exprs projection_map children)
      else
        (case children of
           [] \<Rightarrow>
             (Inl (InternalException ''front called on an empty vector''),
              LOGICAL_FILTER exprs projection_map children)
         | LOGICAL_GET get get_children # others \<Rightarrow>
             (case TryOptimizeGet cardinality get get_children (Some projection_map) None
                     (exprs ! 0) of
                (r, get_ptr', filter_pm') \<Rightarrow>
                  (r, LOGICAL_FILTER exprs
                        (case filter_pm' of Some pm \<Rightarrow> pm | None \<Rightarrow> projection_map)
                        (get_ptr' # others)))
         | _ \<Rightarrow> (Inr False, LOGICAL_FILTER exprs projection_map children)))"
| "TryOptimize cardinality (LOGICAL_GET get get_children) =
     try_expression_filters cardinality get get_children (table_filters get)"
| "TryOptimize cardinality (LOGICAL_OTHER k children) =
     (Inr False, LOGICAL_OTHER k children)"

text \<open>
  \<open>OptimizeRecursive\<close>: the exception raised, if any, and the plan as the traversal leaves
  it. After a call of \<open>TryOptimize\<close> that returns false the node is as it was, and its
  children are traversed in order.
\<close>

fun OptimizeRecursive ::
      "(RTreeIndexScanBindData \<Rightarrow> bool \<times> nat) \<Rightarrow> LogicalOperator
         \<Rightarrow> Exception option \<times> LogicalOperator"
  and OptimizeChildren ::
      "(RTreeIndexScanBindData \<Rightarrow> bool \<times> nat) \<Rightarrow> LogicalOperator list
         \<Rightarrow> Exception option \<times> LogicalOperator list" where
  "OptimizeRecursive cardinality (LOGICAL_FILTER exprs pm children) =
     (case TryOptimize cardinality (LOGICAL_FILTER exprs pm children) of
        (Inl e, plan') \<Rightarrow> (Some e, plan')
      | (Inr True, plan') \<Rightarrow> (None, plan')
      | (Inr False, plan') \<Rightarrow>
          (case OptimizeChildren cardinality children of
             (r, children') \<Rightarrow> (r, LOGICAL_FILTER exprs pm children')))"
| "OptimizeRecursive cardinality (LOGICAL_GET get children) =
     (case TryOptimize cardinality (LOGICAL_GET get children) of
        (Inl e, plan') \<Rightarrow> (Some e, plan')
      | (Inr True, plan') \<Rightarrow> (None, plan')
      | (Inr False, plan') \<Rightarrow>
          (case OptimizeChildren cardinality children of
             (r, children') \<Rightarrow> (r, LOGICAL_GET get children')))"
| "OptimizeRecursive cardinality (LOGICAL_OTHER k children) =
     (case TryOptimize cardinality (LOGICAL_OTHER k children) of
        (Inl e, plan') \<Rightarrow> (Some e, plan')
      | (Inr True, plan') \<Rightarrow> (None, plan')
      | (Inr False, plan') \<Rightarrow>
          (case OptimizeChildren cardinality children of
             (r, children') \<Rightarrow> (r, LOGICAL_OTHER k children')))"
| "OptimizeChildren cardinality [] = (None, [])"
| "OptimizeChildren cardinality (c # cs) =
     (case OptimizeRecursive cardinality c of
        (Some e, c') \<Rightarrow> (Some e, c' # cs)
      | (None, c') \<Rightarrow>
          (case OptimizeChildren cardinality cs of
             (r, cs') \<Rightarrow> (r, c' # cs')))"

text \<open>\<open>Optimize\<close>: the traversal from the root of the plan.\<close>

definition Optimize ::
  "(RTreeIndexScanBindData \<Rightarrow> bool \<times> nat) \<Rightarrow> LogicalOperator
     \<Rightarrow> Exception option \<times> LogicalOperator" where
  "Optimize cardinality plan = OptimizeRecursive cardinality plan"



section \<open>Named parts of the rewrite, for stating its properties\<close>

text \<open>
  A subtree without a match: \<open>TryOptimize\<close> returns false at each of its nodes.
\<close>

fun no_match :: "(RTreeIndexScanBindData \<Rightarrow> bool \<times> nat) \<Rightarrow> LogicalOperator \<Rightarrow> bool" where
  "no_match cardinality (LOGICAL_FILTER exprs pm children) =
     (fst (TryOptimize cardinality (LOGICAL_FILTER exprs pm children)) = Inr False
      \<and> (\<forall>c \<in> set children. no_match cardinality c))"
| "no_match cardinality (LOGICAL_GET get children) =
     (fst (TryOptimize cardinality (LOGICAL_GET get children)) = Inr False
      \<and> (\<forall>c \<in> set children. no_match cardinality c))"
| "no_match cardinality (LOGICAL_OTHER k children) =
     (fst (TryOptimize cardinality (LOGICAL_OTHER k children)) = Inr False
      \<and> (\<forall>c \<in> set children. no_match cardinality c))"

text \<open>
  The scan after the replacement of its access function, its cardinality estimate and its
  bind data.
\<close>

definition index_scan_get ::
  "(RTreeIndexScanBindData \<Rightarrow> bool \<times> nat) \<Rightarrow> RTreeIndexScanBindData \<Rightarrow> LogicalGet \<Rightarrow> LogicalGet" where
  "index_scan_get cardinality bd get =
     get\<lparr>function_name := ''rtree_index_scan'',
         has_estimated_cardinality := fst (cardinality bd),
         get_estimated_cardinality := snd (cardinality bd),
         bind_data := RTreeIndexScanData bd\<rparr>"

text \<open>
  The first three checks of \<open>TryOptimizeGet\<close>: a plain scan without dynamic filters over a
  native table.
\<close>

definition eligible_scan :: "LogicalGet \<Rightarrow> bool" where
  "eligible_scan get =
     (function_name get = ''seq_scan'' \<and> \<not> dynamic_filters get \<and> IsDuckTable (get_table get))"

text \<open>
  The position of the first occurrence of a column id in a list of column ids.
\<close>

fun first_position :: "nat list \<Rightarrow> nat \<Rightarrow> nat" where
  "first_position [] wanted = 0"
| "first_position (c # cs) wanted = (if c = wanted then 0 else Suc (first_position cs wanted))"

text \<open>
  The explicit predicate for one pushed-down filter: the filter over a reference to its
  column, typed by the returned type of the column and numbered by the position of the
  column among the column ids of the scan.
\<close>

definition residual_predicate :: "LogicalGet \<Rightarrow> nat \<times> TableFilter \<Rightarrow> Expression" where
  "residual_predicate get entry =
     ToExpression (snd entry)
       (BoundColumnRefExpression (returned_types get ! fst entry) (table_index get)
          (first_position (column_ids get) (fst entry)))"

text \<open>
  Every pushed-down filter is on a column that has a returned type and is among the column
  ids of the scan.
\<close>

definition filters_resolvable :: "LogicalGet \<Rightarrow> bool" where
  "filters_resolvable get =
     (\<forall>entry \<in> set (table_filters get).
        fst entry < length (returned_types get) \<and> fst entry \<in> set (column_ids get))"

text \<open>
  Every pushed-down filter is on a column that has a returned type.
\<close>

definition filters_typed :: "LogicalGet \<Rightarrow> bool" where
  "filters_typed get =
     (\<forall>entry \<in> set (table_filters get). fst entry < length (returned_types get))"

text \<open>
  The projection map of the filter above the scan, if there is one, indexes the projection
  ids of the scan (when those are not empty).
\<close>

definition projection_map_valid :: "LogicalGet \<Rightarrow> nat list option \<Rightarrow> bool" where
  "projection_map_valid get filter_pm =
     (case filter_pm of
        None \<Rightarrow> True
      | Some pm \<Rightarrow> projection_ids get = [] \<or> (\<forall>i \<in> set pm. i < length (projection_ids get)))"

text \<open>
  The projection map after the replacement of every entry by the projection id it indexes.
\<close>

definition remapped :: "LogicalGet \<Rightarrow> nat list option \<Rightarrow> nat list option" where
  "remapped get filter_pm =
     (case filter_pm of
        None \<Rightarrow> None
      | Some pm \<Rightarrow>
          Some (if projection_ids get = [] then pm else map (\<lambda>i. projection_ids get ! i) pm))"

text \<open>
  Every column reference of an expression has a column index below \<open>n\<close>.
\<close>

fun column_refs_below :: "nat \<Rightarrow> Expression \<Rightarrow> bool" where
  "column_refs_below n (BoundColumnRefExpression t ti ci) = (ci < n)"
| "column_refs_below n (BoundFunctionExpression t f cs) = (\<forall>c \<in> set cs. column_refs_below n c)"
| "column_refs_below n (BoundOperatorExpression k t cs) = (\<forall>c \<in> set cs. column_refs_below n c)"
| "column_refs_below n (BoundConjunctionExpression k cs) = (\<forall>c \<in> set cs. column_refs_below n c)"
| "column_refs_below n (BoundComparisonExpression k cs) = (\<forall>c \<in> set cs. column_refs_below n c)"
| "column_refs_below n (BoundReferenceExpression t i) = True"
| "column_refs_below n (BoundConstantExpression v) = True"

text \<open>
  An index with a key expression whose column references index the columns of the index.
\<close>

definition index_ok :: "RTreeIndex \<Rightarrow> bool" where
  "index_ok idx =
     (case index_unbound_expressions idx of
        [] \<Rightarrow> False
      | e # es \<Rightarrow> column_refs_below (length (index_column_ids idx)) e)"

text \<open>
  The constant operands of a function expression.
\<close>

fun constant_operands :: "Expression \<Rightarrow> Value list" where
  "constant_operands (BoundFunctionExpression t f cs) =
     concat (map (\<lambda>c. case c of BoundConstantExpression v \<Rightarrow> [v] | _ \<Rightarrow> []) cs)"
| "constant_operands e = []"

text \<open>
  The first step of the callback of \<open>TryOptimizeGet\<close>: the key expression of the index
  rewritten for the scan, with the flag \<open>rewrite_possible\<close>.
\<close>

definition rewritten_index_expression ::
  "LogicalGet \<Rightarrow> nat option \<Rightarrow> RTreeIndex \<Rightarrow> Exception + (Expression \<times> bool)" where
  "rewritten_index_expression get filter_column_idx idx =
     (case vector_at (index_unbound_expressions idx) 0 of
        Inl e \<Rightarrow> Inl e
      | Inr index_expr0 \<Rightarrow>
          (case filter_column_idx of
             Some filter_idx \<Rightarrow> Inr (RewriteIndexExpressionForFilter index_expr0 filter_idx True)
           | None \<Rightarrow> RewriteIndexExpression idx get index_expr0 True))"

text \<open>
  Every R-tree index of the scanned table is well formed, and no constant operand of an
  expression has cached bounds.
\<close>

definition indexes_ok :: "LogicalGet \<Rightarrow> bool" where
  "indexes_ok get = (\<forall>idx \<in> set (indexes (get_table get)). index_ok idx)"

definition no_constant_bounds :: "Expression \<Rightarrow> bool" where
  "no_constant_bounds e = (\<forall>v \<in> set (constant_operands e). TryGetBoundingBox v = None)"

text \<open>
  A table \<open>t\<close> with columns geom, price and stock, an R-tree index on geom, and a scan
  of geom and price.
\<close>

definition geom_index :: RTreeIndex where
  "geom_index =
     \<lparr>index_name = ''idx'', index_column_ids = [0],
      index_unbound_expressions = [BoundColumnRefExpression GEOMETRY 0 0]\<rparr>"

definition example_table :: TableCatalogEntry where
  "example_table = \<lparr>table_name = ''t'', IsDuckTable = True, indexes = [geom_index]\<rparr>"

definition example_get :: LogicalGet where
  "example_get =
     \<lparr>function_name = ''seq_scan'', dynamic_filters = False, get_table = example_table,
      table_index = 0, column_ids = [0, 1], table_filters = [], projection_ids = [],
      types = [GEOMETRY, BIGINT], returned_types = [GEOMETRY, BIGINT, BIGINT],
      bind_data = TableScanBindData, has_estimated_cardinality = False,
      get_estimated_cardinality = 0\<rparr>"

text \<open>
  The predicate \<open>ST_Intersects(geom, c)\<close> with a constant that has cached bounds, and with
  a constant that has none.
\<close>

definition ST_Intersects_GEOMETRY :: ScalarFunction where
  "ST_Intersects_GEOMETRY = ScalarFunction ''ST_Intersects'' [GEOMETRY, GEOMETRY] BOOLEAN"

definition spatial_predicate :: Expression where
  "spatial_predicate =
     BoundFunctionExpression BOOLEAN ST_Intersects_GEOMETRY
       [BoundColumnRefExpression GEOMETRY 0 0,
        BoundConstantExpression (Value GEOMETRY (geometry_with_bounds narrow_box))]"

definition predicate_without_bounds :: Expression where
  "predicate_without_bounds =
     BoundFunctionExpression BOOLEAN ST_Intersects_GEOMETRY
       [BoundConstantExpression (Value GEOMETRY point_geometry),
        BoundColumnRefExpression GEOMETRY 0 0]"

text \<open>
  A function named \<open>ST_Intersects\<close> whose second parameter is a VARCHAR, applied to geom
  and a text constant.
\<close>

definition ST_Intersects_VARCHAR :: ScalarFunction where
  "ST_Intersects_VARCHAR = ScalarFunction ''ST_Intersects'' [GEOMETRY, VARCHAR] BOOLEAN"

definition mistyped_predicate :: Expression where
  "mistyped_predicate =
     BoundFunctionExpression BOOLEAN ST_Intersects_VARCHAR
       [BoundColumnRefExpression GEOMETRY 0 0,
        BoundConstantExpression (Value VARCHAR (geometry_with_bounds narrow_box))]"

text \<open>
  A cardinality function, and the bind data of the index scan for the first predicate.
\<close>

definition fixed_cardinality :: "RTreeIndexScanBindData \<Rightarrow> bool \<times> nat" where
  "fixed_cardinality bd = (True, 1)"

definition example_bind_data :: RTreeIndexScanBindData where
  "example_bind_data = \<lparr>bind_table = ''t'', bind_index = geom_index, bind_bbox = narrow_box\<rparr>"

text \<open>
  The pushed-down filter \<open>IS NOT NULL\<close>, on the projected column price (column 1) and
  on the column stock (column 2), which the scan does not project.
\<close>

definition column_not_null :: TableFilter where
  "column_not_null =
     ExpressionFilter
       (BoundOperatorExpression OPERATOR_IS_NOT_NULL BOOLEAN [BoundReferenceExpression BIGINT 0])"

definition get_with_price_filter :: LogicalGet where
  "get_with_price_filter = example_get\<lparr>table_filters := [(1, column_not_null)]\<rparr>"

definition get_with_stray_filter :: LogicalGet where
  "get_with_stray_filter = example_get\<lparr>table_filters := [(2, column_not_null)]\<rparr>"


text \<open>
  The children of a node, the node with other children, and the subtree that a path of
  child positions leads to.
\<close>

fun children_of :: "LogicalOperator \<Rightarrow> LogicalOperator list" where
  "children_of (LOGICAL_FILTER exprs pm children) = children"
| "children_of (LOGICAL_GET get children) = children"
| "children_of (LOGICAL_OTHER k children) = children"

fun with_children :: "LogicalOperator \<Rightarrow> LogicalOperator list \<Rightarrow> LogicalOperator" where
  "with_children (LOGICAL_FILTER exprs pm children) cs = LOGICAL_FILTER exprs pm cs"
| "with_children (LOGICAL_GET get children) cs = LOGICAL_GET get cs"
| "with_children (LOGICAL_OTHER k children) cs = LOGICAL_OTHER k cs"

fun subtree_at :: "LogicalOperator \<Rightarrow> nat list \<Rightarrow> LogicalOperator option" where
  "subtree_at plan [] = Some plan"
| "subtree_at plan (i # path) =
     (if i < length (children_of plan) then subtree_at (children_of plan ! i) path else None)"

text \<open>
  \<open>TryOptimize\<close> returns false at every node that the path passes through, above its end.
\<close>

fun unmatched_above ::
  "(RTreeIndexScanBindData \<Rightarrow> bool \<times> nat) \<Rightarrow> LogicalOperator \<Rightarrow> nat list \<Rightarrow> bool" where
  "unmatched_above cardinality plan [] = True"
| "unmatched_above cardinality plan (i # path) =
     (fst (TryOptimize cardinality plan) = Inr False
      \<and> i < length (children_of plan)
      \<and> unmatched_above cardinality (children_of plan ! i) path)"

text \<open>
  Plans to run the traversal on: a filter that matches, what it is rewritten to, a subtree
  without a match, a plan with both two levels below its root, and a filter that matches
  over a scan that has the matching filter below it.
\<close>

definition matching_filter :: LogicalOperator where
  "matching_filter = LOGICAL_FILTER [spatial_predicate] [] [LOGICAL_GET example_get []]"

definition rewritten_filter :: LogicalOperator where
  "rewritten_filter =
     LOGICAL_FILTER [spatial_predicate] []
       [LOGICAL_GET (index_scan_get fixed_cardinality example_bind_data example_get) []]"

definition plain_subtree :: LogicalOperator where
  "plain_subtree = LOGICAL_OTHER ''LIMIT'' [LOGICAL_GET example_get []]"

definition deep_plan :: LogicalOperator where
  "deep_plan =
     LOGICAL_OTHER ''PROJECTION'' [LOGICAL_OTHER ''UNION'' [plain_subtree, matching_filter]]"

definition deep_plan_rewritten :: LogicalOperator where
  "deep_plan_rewritten =
     LOGICAL_OTHER ''PROJECTION'' [LOGICAL_OTHER ''UNION'' [plain_subtree, rewritten_filter]]"

definition nested_plan :: LogicalOperator where
  "nested_plan =
     LOGICAL_FILTER [spatial_predicate] [] [LOGICAL_GET example_get [matching_filter]]"

definition nested_plan_rewritten :: LogicalOperator where
  "nested_plan_rewritten =
     LOGICAL_FILTER [spatial_predicate] []
       [LOGICAL_GET (index_scan_get fixed_cardinality example_bind_data example_get)
          [matching_filter]]"


text \<open>
  Two boxes whose centres differ and whose computed keys are equal: x from 1 to 16777216,
  and the point x = 8388608.
\<close>

definition long_box :: Box2D where
  "long_box = \<lparr>min_x = 1, min_y = 0, max_x = 16777216, max_y = 0\<rparr>"

definition middle_box :: Box2D where
  "middle_box = \<lparr>min_x = 8388608, min_y = 0, max_x = 8388608, max_y = 0\<rparr>"

definition tie_boxes :: "(geometry_t option \<times> int) list" where
  "tie_boxes =
     [(Some (geometry_with_bounds long_box), 1), (Some (geometry_with_bounds middle_box), 2)]"


section \<open>Properties of the index build\<close>

lemma sequence_map_Inr: "sequence (map Inr xs) = Inr xs"
  by (induction xs) auto

lemma sequence_map_all_Inr:
  "(\<And>x. x \<in> set xs \<Longrightarrow> f x = Inr (g x)) \<Longrightarrow> sequence (map f xs) = Inr (map g xs)"
  by (induction xs) auto

lemma null_filter_row:
  "ExecuteExpression float_add (null_filter_expr t0) [geometry_datum g, BIGINT_D rid] =
     Inr (BOOLEAN_D (case g of None \<Rightarrow> False | Some blob \<Rightarrow> vertex_count blob \<noteq> 0))"
  by (cases g)
     (simp_all add: null_filter_expr_def geometry_datum_def vector_at_def ExecuteFunction_def
        as_geometry_def as_boolean_def boolean_datum_def and3_def ST_IsEmpty_ExecuteGeometry_def)

lemma select_rows_null_filter:
  "select_rows float_add (null_filter_expr t0) (scan_rows input) =
     Inr (scan_rows (filter (\<lambda>(g, rid). case g of None \<Rightarrow> False
                                       | Some blob \<Rightarrow> vertex_count blob \<noteq> 0) input))"
  by (induction input) (auto simp: scan_rows_def null_filter_row split: option.splits)

lemma fn_distinct:
  "ST_Extent_Approx_GEOMETRY \<noteq> ST_IsEmpty_GEOMETRY"
  "ST_Centroid_BOX_2DF \<noteq> ST_IsEmpty_GEOMETRY"
  "ST_Centroid_BOX_2DF \<noteq> ST_Extent_Approx_GEOMETRY"
  "ST_XMin_POINT_2D \<noteq> ST_IsEmpty_GEOMETRY"
  "ST_XMin_POINT_2D \<noteq> ST_Extent_Approx_GEOMETRY"
  "ST_XMin_POINT_2D \<noteq> ST_Centroid_BOX_2DF"
  by (simp_all add: ST_Extent_Approx_GEOMETRY_def ST_IsEmpty_GEOMETRY_def
        ST_Centroid_BOX_2DF_def ST_XMin_POINT_2D_def)

lemma bbox_select_row:
  "sequence (map (\<lambda>e. ExecuteExpression float_add e [geometry_datum g, BIGINT_D rid]) bbox_select_list) =
     Inr [box_datum (ST_Extent_Approx_Execute g), BIGINT_D rid]"
  by (cases g)
     (simp_all add: bbox_select_list_def geometry_datum_def vector_at_def ExecuteFunction_def
        as_geometry_def fn_distinct)

lemma project_rows_bbox:
  "project_rows float_add bbox_select_list (scan_rows input) =
     Inr (bbox_rows (map (\<lambda>(g, rid). (ST_Extent_Approx_Execute g, rid)) input))"
  unfolding project_rows_def scan_rows_def bbox_rows_def map_map
  by (rule trans[OF sequence_map_all_Inr[where g = "\<lambda>(g, rid). [box_datum (ST_Extent_Approx_Execute g), BIGINT_D rid]"]])
     (auto simp: bbox_select_row)

lemma order_expr_row:
  "ExecuteExpression float_add order_expr [box_datum b, BIGINT_D rid] = Inr (double_datum (order_key float_add b))"
  by (cases b)
     (simp_all add: order_expr_def box_datum_def vector_at_def ExecuteFunction_def
        as_box_def as_point_def fn_distinct order_key_def point_datum_def
        ST_Centroid_ExecuteBox_def ST_XMin_ExecutePoint_def double_datum_def)

lemma as_double_double_datum: "as_double (double_datum k) = Inr k"
  by (cases k) (simp_all add: as_double_def double_datum_def)

lemma order_keys_bbox:
  "order_keys float_add order_expr (bbox_rows entries) =
     Inr (map (\<lambda>(b, rid). (order_key float_add b, [box_datum b, BIGINT_D rid])) entries)"
  by (induction entries) (auto simp: bbox_rows_def order_expr_row as_double_double_datum)

lemma sort_key_map_fst:
  "sort_key fst (map (\<lambda>x. (k x, f x)) xs) = map (\<lambda>x. (k x, f x)) (sort_key k xs)"
proof (induction xs)
  case Nil
  show ?case by simp
next
  case (Cons x xs)
  have ins: "insort_key fst (k x, f x) (map (\<lambda>x. (k x, f x)) ys) =
        map (\<lambda>x. (k x, f x)) (insort_key k x ys)" for ys
    by (induction ys) auto
  from Cons show ?case by (simp add: ins)
qed

lemma order_rows_bbox:
  "order_rows float_add order_expr [0, 1] (bbox_rows entries) =
     Inr (bbox_rows (sort_key (\<lambda>(b, rid). order_key float_add b) entries))"
proof -
  let ?k = "\<lambda>(b, rid). order_key float_add b"
  let ?f = "\<lambda>(b :: Box2D option, rid :: int). [box_datum b, BIGINT_D rid]"
  have keys: "order_keys float_add order_expr (bbox_rows entries) = Inr (map (\<lambda>x. (?k x, ?f x)) entries)"
    by (simp add: order_keys_bbox case_prod_unfold)
  have sorted_keys: "sort_key fst (map (\<lambda>x. (?k x, ?f x)) entries) =
        map (\<lambda>x. (?k x, ?f x)) (sort_key ?k entries)"
    by (rule sort_key_map_fst)
  have proj: "sequence (map (\<lambda>(k, row). sequence (map (vector_at row) [0, 1]))
                 (map (\<lambda>x. (?k x, ?f x)) ys)) = Inr (map ?f ys)" for ys
    by (induction ys) (auto simp: vector_at_def)
  show ?thesis
    unfolding order_rows_def keys
    by (simp only: sum.case sorted_keys proj bbox_rows_def)
qed

lemma CreatePlan_binder_iff:
  "(\<exists>msg. CreatePlan IsConsistent op ts = Inl (BinderException msg)) \<longleftrightarrow>
     key_rejected IsConsistent op"
  by (auto simp: CreatePlan_def key_rejected_def CreateNullFilter_def vector_at_def Let_def
        split: if_splits sum.splits)

lemma CreatePlan_accepts:
  assumes "\<not> key_rejected IsConsistent op" and "expressions op \<noteq> []"
  shows "CreatePlan IsConsistent op ts = Inr (index_build_plan op ts)"
  using assms
  by (simp add: CreatePlan_def key_rejected_def CreateNullFilter_def vector_at_def Let_def
        index_build_plan_def CreateBoundingBoxProjection_def CreateOrderByMinX_def
        null_filter_expr_def bbox_select_list_def order_expr_def key_select_list_def)

lemma sorter_input_build_plan:
  assumes "project_rows float_add (key_select_list op) rows = Inr (scan_rows input)"
  shows "sorter_input float_add (index_build_plan op (PhysicalTableScan rows)) =
     Inr (bbox_rows (map (\<lambda>(g, rid). (ST_Extent_Approx_Execute g, rid)) (filter non_null_non_empty input)))"
proof -
  have r: "(\<lambda>(g, rid). case g of None \<Rightarrow> False | Some blob \<Rightarrow> vertex_count blob \<noteq> 0) = non_null_non_empty"
    by (auto simp: non_null_non_empty_def fun_eq_iff)
  show ?thesis
    using assms
    by (simp add: sorter_input_def index_build_plan_def Let_def select_rows_null_filter
          project_rows_bbox r)
qed

lemma index_input_build_plan:
  assumes "project_rows float_add (key_select_list op) rows = Inr (scan_rows input)"
  shows "index_input float_add (index_build_plan op (PhysicalTableScan rows)) =
     Inr (bbox_rows (sort_key (\<lambda>(b, rid). order_key float_add b)
            (map (\<lambda>(g, rid). (ST_Extent_Approx_Execute g, rid)) (filter non_null_non_empty input))))"
proof -
  have r: "(\<lambda>(g, rid). case g of None \<Rightarrow> False | Some blob \<Rightarrow> vertex_count blob \<noteq> 0) = non_null_non_empty"
    by (auto simp: non_null_non_empty_def fun_eq_iff)
  show ?thesis
    using assms
    by (simp add: index_input_def index_build_plan_def Let_def select_rows_null_filter
          project_rows_bbox r order_rows_bbox[unfolded One_nat_def])
qed

lemma build_inputs_accepted:
  assumes "\<not> key_rejected IsConsistent op" and "expressions op \<noteq> []"
    and "project_rows float_add (key_select_list op) rows = Inr (scan_rows input)"
  shows "build_sorter_input float_add IsConsistent op (PhysicalTableScan rows) =
           Inr (bbox_rows (map (\<lambda>(g, rid). (ST_Extent_Approx_Execute g, rid))
                             (filter non_null_non_empty input)))"
    and "build_index_input float_add IsConsistent op (PhysicalTableScan rows) =
           Inr (bbox_rows (sort_key (\<lambda>(b, rid). order_key float_add b)
                  (map (\<lambda>(g, rid). (ST_Extent_Approx_Execute g, rid))
                     (filter non_null_non_empty input))))"
  using assms
  by (simp_all add: build_sorter_input_def build_index_input_def CreatePlan_accepts
        sorter_input_build_plan index_input_build_plan)

lemmas build_eval_defs =
  key_rejected_def geometry_column_index_def no_side_effects_def key_select_list_def
  project_rows_def scan_rows_def vector_at_def ROW_TYPE_def geometry_datum_def
  non_null_non_empty_def ST_Extent_Approx_Execute_def TryGetCachedBounds_def bbox_rows_def
  box_datum_def three_rows_def empty_geometry_def geometry_with_bounds_def exact_add_def

text \<open>
  Claim C4. \<open>CreatePlan\<close> raises a binder (validation) exception exactly when the key is
  rejected: the number of key expressions is not one, or the key's return type is not
  GEOMETRY, or the key is not consistent. The checks come first in \<open>CreatePlan\<close>, before
  any operator is made. Otherwise, for an operator whose bound and unbound expression
  lists have the same length (as its constructor makes them), \<open>CreatePlan\<close> returns the
  build pipeline. An empty key list is rejected like a key list of two or more.
\<close>

theorem CreatePlan_validation:
  "((\<exists>msg. CreatePlan IsConsistent op table_scan = Inl (BinderException msg))
      \<longleftrightarrow> key_rejected IsConsistent op)
   \<and> (\<not> key_rejected IsConsistent op
        \<and> length (expressions op) = length (unbound_expressions op)
      \<longrightarrow> CreatePlan IsConsistent op table_scan = Inr (index_build_plan op table_scan))"
proof (intro conjI impI)
  show "(\<exists>msg. CreatePlan IsConsistent op table_scan = Inl (BinderException msg))
          \<longleftrightarrow> key_rejected IsConsistent op"
    by (rule CreatePlan_binder_iff)
next
  assume a: "\<not> key_rejected IsConsistent op
               \<and> length (expressions op) = length (unbound_expressions op)"
  then have "length (expressions op) = 1"
    by (simp add: key_rejected_def)
  then have "expressions op \<noteq> []"
    by auto
  with a show "CreatePlan IsConsistent op table_scan = Inr (index_build_plan op table_scan)"
    by (simp add: CreatePlan_accepts)
qed

theorem CreatePlan_validation_witness:
  "\<not> key_rejected no_side_effects (geometry_column_index ''t'' 0)
   \<and> length (expressions (geometry_column_index ''t'' 0)) =
       length (unbound_expressions (geometry_column_index ''t'' 0))
   \<and> CreatePlan no_side_effects (geometry_column_index ''t'' 0) (PhysicalTableScan []) =
       Inr (index_build_plan (geometry_column_index ''t'' 0) (PhysicalTableScan []))
   \<and> key_rejected no_side_effects
        ((geometry_column_index ''t'' 0)
           \<lparr>unbound_expressions := [BoundColumnRefExpression DOUBLE 0 0]\<rparr>)
   \<and> (\<exists>msg. CreatePlan no_side_effects
        ((geometry_column_index ''t'' 0)
           \<lparr>unbound_expressions := [BoundColumnRefExpression DOUBLE 0 0]\<rparr>)
        (PhysicalTableScan []) = Inl (BinderException msg))"
  using CreatePlan_validation
      [of no_side_effects "geometry_column_index ''t'' 0" "PhysicalTableScan []"]
    CreatePlan_validation
      [of no_side_effects
          "(geometry_column_index ''t'' 0)
             \<lparr>unbound_expressions := [BoundColumnRefExpression DOUBLE 0 0]\<rparr>"
          "PhysicalTableScan []"]
  by (simp add: key_rejected_def geometry_column_index_def no_side_effects_def)

text \<open>
  Claim C8. Let the key be accepted and let the key projection turn the scanned rows into
  the rows \<open>(geometry, row_id)\<close> of \<open>input\<close>. Then the rows that reach the sorter are, in
  order, one row per input row whose geometry is not NULL and has a vertex count other
  than zero, holding the result of \<open>ST_Extent_Approx\<close> on the geometry and the row id;
  and the rows that reach the tree builder are a permutation of those. Rows with a NULL
  or empty geometry reach neither.
\<close>

theorem build_retains_non_null_non_empty:
  assumes "\<not> key_rejected IsConsistent op" and "expressions op \<noteq> []"
    and "project_rows float_add (key_select_list op) rows = Inr (scan_rows input)"
  shows "build_sorter_input float_add IsConsistent op (PhysicalTableScan rows) =
           Inr (bbox_rows (map (\<lambda>(g, rid). (ST_Extent_Approx_Execute g, rid))
                             (filter non_null_non_empty input)))
         \<and> (\<exists>entries. build_index_input float_add IsConsistent op (PhysicalTableScan rows) =
                         Inr (bbox_rows entries)
               \<and> mset entries = mset (map (\<lambda>(g, rid). (ST_Extent_Approx_Execute g, rid))
                                          (filter non_null_non_empty input)))"
proof -
  let ?kept = "map (\<lambda>(g, rid). (ST_Extent_Approx_Execute g, rid))
                 (filter non_null_non_empty input)"
  have "mset (sort_key (\<lambda>(b, rid). order_key float_add b) ?kept) = mset ?kept"
    by (rule mset_sort)
  with build_inputs_accepted [OF assms] show ?thesis
    by blast
qed

theorem build_retains_non_null_non_empty_witness:
  "\<not> key_rejected no_side_effects (geometry_column_index ''t'' 3)
   \<and> expressions (geometry_column_index ''t'' 3) \<noteq> []
   \<and> project_rows exact_add (key_select_list (geometry_column_index ''t'' 3)) (scan_rows three_rows) =
       Inr (scan_rows three_rows)
   \<and> build_sorter_input exact_add no_side_effects (geometry_column_index ''t'' 3)
       (PhysicalTableScan (scan_rows three_rows)) = Inr [[BOX_2DF_D narrow_box, BIGINT_D 3]]"
  using build_retains_non_null_non_empty
      [where float_add = exact_add and IsConsistent = no_side_effects
         and op = "geometry_column_index ''t'' 3" and rows = "scan_rows three_rows"
         and input = three_rows]
  by (simp add: build_eval_defs)

lemma ST_Extent_Approx_Execute_eq:
  "ST_Extent_Approx_Execute g = (case g of None \<Rightarrow> None | Some blob \<Rightarrow> cached_bounds blob)"
  by (simp add: ST_Extent_Approx_Execute_def TryGetCachedBounds_def split: option.splits)

lemma ExecuteFunction_ST_Extent_Approx:
  "ExecuteFunction float_add ST_Extent_Approx_GEOMETRY [geometry_datum g] =
     Inr (box_datum (ST_Extent_Approx_Execute g))"
  by (cases g) (simp_all add: ExecuteFunction_def geometry_datum_def as_geometry_def fn_distinct)

lemma set_bbox_rows:
  "(b, rid) \<in> set entries \<Longrightarrow> [box_datum b, BIGINT_D rid] \<in> set (bbox_rows entries)"
  by (force simp: bbox_rows_def)

text \<open>
  Claim C10. On a GEOMETRY argument (NULL or a blob) \<open>ST_Extent_Approx\<close> returns a value
  and does not raise; the value is NULL for a NULL geometry and for a blob without cached
  bounds, and the cached box otherwise. So a row of the build whose geometry is not NULL,
  is not empty and has no cached bounds passes the filter: it reaches the sorter with a
  NULL bounding box, its sort key is NULL, and it reaches the tree builder.
\<close>
theorem ST_Extent_Approx_null_without_bounds:
  "ExecuteFunction float_add ST_Extent_Approx_GEOMETRY [geometry_datum g] =
     Inr (box_datum (ST_Extent_Approx_Execute g))
   \<and> ST_Extent_Approx_Execute g = (case g of None \<Rightarrow> None | Some blob \<Rightarrow> cached_bounds blob)
   \<and> (\<not> key_rejected IsConsistent op \<and> expressions op \<noteq> []
        \<and> project_rows float_add (key_select_list op) rows = Inr (scan_rows input)
        \<and> (Some blob, rid) \<in> set input \<and> vertex_count blob \<noteq> 0 \<and> cached_bounds blob = None
      \<longrightarrow> (\<exists>srows. build_sorter_input float_add IsConsistent op (PhysicalTableScan rows) = Inr srows
                    \<and> [NULL_D, BIGINT_D rid] \<in> set srows)
          \<and> ExecuteExpression float_add order_expr [NULL_D, BIGINT_D rid] = Inr NULL_D
          \<and> (\<exists>irows. build_index_input float_add IsConsistent op (PhysicalTableScan rows) = Inr irows
                    \<and> [NULL_D, BIGINT_D rid] \<in> set irows))"
proof (intro conjI impI)
  show "ExecuteFunction float_add ST_Extent_Approx_GEOMETRY [geometry_datum g] =
          Inr (box_datum (ST_Extent_Approx_Execute g))"
    by (rule ExecuteFunction_ST_Extent_Approx)
  show "ST_Extent_Approx_Execute g = (case g of None \<Rightarrow> None | Some blob \<Rightarrow> cached_bounds blob)"
    by (rule ST_Extent_Approx_Execute_eq)
  show "ExecuteExpression float_add order_expr [NULL_D, BIGINT_D rid] = Inr NULL_D"
    using order_expr_row [of float_add None rid]
    by (simp add: box_datum_def order_key_def ST_Centroid_ExecuteBox_def
          ST_XMin_ExecutePoint_def double_datum_def)
next
  assume a: "\<not> key_rejected IsConsistent op \<and> expressions op \<noteq> []
        \<and> project_rows float_add (key_select_list op) rows = Inr (scan_rows input)
        \<and> (Some blob, rid) \<in> set input \<and> vertex_count blob \<noteq> 0 \<and> cached_bounds blob = None"
  let ?kept = "map (\<lambda>(g, rid). (ST_Extent_Approx_Execute g, rid))
                 (filter non_null_non_empty input)"
  from a have "(Some blob, rid) \<in> set (filter non_null_non_empty input)"
    by (simp add: non_null_non_empty_def)
  then have "(ST_Extent_Approx_Execute (Some blob), rid) \<in> set ?kept"
    by force
  with a have mem: "(None, rid) \<in> set ?kept"
    by (simp add: ST_Extent_Approx_Execute_eq)
  then have mem': "(None, rid) \<in> set (sort_key (\<lambda>(b, rid). order_key float_add b) ?kept)"
    by simp
  from a have acc: "\<not> key_rejected IsConsistent op" "expressions op \<noteq> []"
    "project_rows float_add (key_select_list op) rows = Inr (scan_rows input)"
    by simp_all
  show "\<exists>srows. build_sorter_input float_add IsConsistent op (PhysicalTableScan rows) = Inr srows
                    \<and> [NULL_D, BIGINT_D rid] \<in> set srows"
    using build_inputs_accepted(1) [OF acc] set_bbox_rows [OF mem]
    by (simp add: box_datum_def)
  show "\<exists>irows. build_index_input float_add IsConsistent op (PhysicalTableScan rows) = Inr irows
                    \<and> [NULL_D, BIGINT_D rid] \<in> set irows"
    using build_inputs_accepted(2) [OF acc] set_bbox_rows [OF mem']
    by (simp add: box_datum_def)
qed

theorem ST_Extent_Approx_null_without_bounds_witness:
  "\<not> key_rejected no_side_effects (geometry_column_index ''t'' 1)
   \<and> expressions (geometry_column_index ''t'' 1) \<noteq> []
   \<and> project_rows exact_add (key_select_list (geometry_column_index ''t'' 1))
        (scan_rows [(Some point_geometry, 7)]) = Inr (scan_rows [(Some point_geometry, 7)])
   \<and> vertex_count point_geometry \<noteq> 0 \<and> cached_bounds point_geometry = None
   \<and> (\<exists>srows. build_sorter_input exact_add no_side_effects (geometry_column_index ''t'' 1)
                  (PhysicalTableScan (scan_rows [(Some point_geometry, 7)])) = Inr srows
               \<and> [NULL_D, BIGINT_D 7] \<in> set srows)"
  using ST_Extent_Approx_null_without_bounds
      [where float_add = exact_add and g = None and IsConsistent = no_side_effects
         and op = "geometry_column_index ''t'' 1"
         and rows = "scan_rows [(Some point_geometry, 7)]"
         and input = "[(Some point_geometry, 7)]" and blob = point_geometry and rid = 7]
  by (simp add: build_eval_defs point_geometry_def)

lemma order_key_eq:
  "order_key float_add b = map_option (\<lambda>box. float_add (min_x box) (max_x box) * 0.5) b"
  by (cases b) (simp_all add: order_key_def ST_Centroid_ExecuteBox_def ST_XMin_ExecutePoint_def)

lemma bbox_of_row_bbox_row: "bbox_of_row [box_datum b, BIGINT_D rid] = b"
  by (cases b) (simp_all add: bbox_of_row_def box_datum_def)

lemma sorted_by_centre_x_bbox_rows:
  "sorted_by_centre_x float_add (bbox_rows entries) = sorted (map (\<lambda>(b, rid). order_key float_add b) entries)"
proof -
  have "map (\<lambda>row. map_option (\<lambda>b. float_add (min_x b) (max_x b) * 0.5) (bbox_of_row row))
          (bbox_rows entries)
        = map (\<lambda>(b, rid). order_key float_add b) entries"
    by (induction entries) (auto simp: bbox_rows_def bbox_of_row_bbox_row order_key_eq)
  then show ?thesis
    by (simp add: sorted_by_centre_x_def)
qed

text \<open>
  Claim C2, as amended. The order operator of the build sorts by
  \<open>st_xmin(st_centroid(bbox))\<close>: the rows that reach the tree builder are a permutation
  of the rows that reach the sorter, in ascending order of the x coordinate of the
  centroid of the box as the program computes it, the single-precision sum of \<open>min_x\<close> and
  \<open>max_x\<close> times 0.5, rows with a NULL box first. This holds for every binary32 addition
  \<open>float_add\<close>; two boxes whose computed keys are equal may come in either order.
\<close>

theorem build_sorts_by_centre_x:
  assumes "\<not> key_rejected IsConsistent op" and "expressions op \<noteq> []"
    and "project_rows float_add (key_select_list op) rows = Inr (scan_rows input)"
  shows "\<exists>srows irows.
           build_sorter_input float_add IsConsistent op (PhysicalTableScan rows) = Inr srows
           \<and> build_index_input float_add IsConsistent op (PhysicalTableScan rows) = Inr irows
           \<and> mset irows = mset srows
           \<and> sorted_by_centre_x float_add irows"
proof -
  let ?kept = "map (\<lambda>(g, rid). (ST_Extent_Approx_Execute g, rid))
                 (filter non_null_non_empty input)"
  let ?k = "\<lambda>(b :: Box2D option, rid :: int). order_key float_add b"
  have "mset (bbox_rows (sort_key ?k ?kept)) = mset (bbox_rows ?kept)"
    by (simp only: bbox_rows_def mset_map mset_sort)
  moreover have "sorted_by_centre_x float_add (bbox_rows (sort_key ?k ?kept))"
    unfolding sorted_by_centre_x_bbox_rows by (rule sorted_sort_key)
  ultimately show ?thesis
    using build_inputs_accepted [OF assms] by simp
qed

theorem build_sorts_by_centre_x_witness:
  "\<not> key_rejected no_side_effects (geometry_column_index ''t'' 2)
   \<and> expressions (geometry_column_index ''t'' 2) \<noteq> []
   \<and> project_rows exact_add (key_select_list (geometry_column_index ''t'' 2))
         (scan_rows two_boxes) = Inr (scan_rows two_boxes)
   \<and> (\<exists>irows. build_index_input exact_add no_side_effects (geometry_column_index ''t'' 2)
          (PhysicalTableScan (scan_rows two_boxes)) = Inr irows
        \<and> sorted_by_centre_x exact_add irows)
   \<and> project_rows rounding_add (key_select_list (geometry_column_index ''t'' 2))
         (scan_rows tie_boxes) = Inr (scan_rows tie_boxes)
   \<and> (\<exists>irows. build_index_input rounding_add no_side_effects (geometry_column_index ''t'' 2)
          (PhysicalTableScan (scan_rows tie_boxes)) = Inr irows
        \<and> sorted_by_centre_x rounding_add irows)"
  using build_sorts_by_centre_x
      [where float_add = exact_add and IsConsistent = no_side_effects
         and op = "geometry_column_index ''t'' 2" and rows = "scan_rows two_boxes"
         and input = two_boxes]
    build_sorts_by_centre_x
      [where float_add = rounding_add and IsConsistent = no_side_effects
         and op = "geometry_column_index ''t'' 2" and rows = "scan_rows tie_boxes"
         and input = tie_boxes]
  by (simp add: build_eval_defs two_boxes_def tie_boxes_def) blast

lemmas build_run_defs =
  build_index_input_def CreatePlan_def no_side_effects_def geometry_column_index_def
  CreateNullFilter_def vector_at_def Let_def CreateBoundingBoxProjection_def
  CreateOrderByMinX_def index_input_def scan_rows_def geometry_datum_def ExecuteFunction_def
  as_geometry_def as_boolean_def boolean_datum_def and3_def ST_IsEmpty_ExecuteGeometry_def
  geometry_with_bounds_def project_rows_def ROW_TYPE_def fn_distinct
  ST_Extent_Approx_Execute_def TryGetCachedBounds_def box_datum_def order_rows_def as_box_def
  as_point_def point_datum_def ST_Centroid_ExecuteBox_def ST_XMin_ExecutePoint_def
  double_datum_def as_double_def wide_box_def narrow_box_def exact_add_def

text \<open>
  The order is not the order of \<open>min_x\<close>: of two boxes spanning x from 0 to 10 and from
  1 to 2, the second has the smaller centre and comes first. Both sums, 0 + 10 and 1 + 2,
  are exact in binary32.
\<close>

theorem build_sorts_by_min_x_counterexample:
  "build_index_input exact_add no_side_effects (geometry_column_index ''t'' 2)
       (PhysicalTableScan (scan_rows two_boxes))
     = Inr [[BOX_2DF_D narrow_box, BIGINT_D 2], [BOX_2DF_D wide_box, BIGINT_D 1]]
   \<and> \<not> sorted_by_min_x [[BOX_2DF_D narrow_box, BIGINT_D 2], [BOX_2DF_D wide_box, BIGINT_D 1]]"
  by (simp add: build_run_defs two_boxes_def sorted_by_min_x_def bbox_of_row_def ST_XMin_ExecuteBox_def)

section \<open>Properties of the plan rewriter\<close>

lemma TryOptimizeGet_false_unchanged:
  assumes "TryOptimizeGet cardinality get ch fpm fci e = (Inr False, p, fpm')"
  shows "p = LOGICAL_GET get ch \<and> fpm' = fpm"
  using assms
  by (auto simp: TryOptimizeGet_def Let_def split: if_splits sum.splits option.splits prod.splits)

lemma try_expression_filters_false_unchanged:
  "try_expression_filters cardinality get ch fs = (Inr False, p) \<Longrightarrow> p = LOGICAL_GET get ch"
proof (induction cardinality get ch fs rule: try_expression_filters.induct)
  case (1 cardinality get ch)
  then show ?case by simp
next
  case (2 cardinality get ch column_id expr rest)
  then show ?case
    by (auto split: prod.splits sum.splits bool.splits dest: TryOptimizeGet_false_unchanged)
next
  case (3 cardinality get ch column_id k v rest)
  then show ?case by simp
qed

lemma TryOptimize_false_unchanged:
  assumes "TryOptimize cardinality plan = (Inr False, p)"
  shows "p = plan"
proof (cases plan)
  case (LOGICAL_FILTER exprs pm children)
  with assms show ?thesis
    by (auto split: if_splits list.splits LogicalOperator.splits prod.splits option.splits
        dest: TryOptimizeGet_false_unchanged)
next
  case (LOGICAL_GET get ch)
  with assms show ?thesis
    by (auto dest: try_expression_filters_false_unchanged)
next
  case (LOGICAL_OTHER k ch)
  with assms show ?thesis by simp
qed

lemma OptimizeRecursive_match:
  assumes "TryOptimize cardinality plan = (Inr True, p)"
  shows "OptimizeRecursive cardinality plan = (None, p)"
  using assms by (cases plan) simp_all

lemma OptimizeChildren_fixed:
  "(\<And>c. c \<in> set cs \<Longrightarrow> OptimizeRecursive cardinality c = (None, c))
     \<Longrightarrow> OptimizeChildren cardinality cs = (None, cs)"
  by (induction cs) simp_all

lemma OptimizeRecursive_no_match:
  "no_match cardinality plan \<Longrightarrow> OptimizeRecursive cardinality plan = (None, plan)"
proof (induction plan)
  case (LOGICAL_FILTER exprs pm children)
  then have "OptimizeChildren cardinality children = (None, children)"
    by (intro OptimizeChildren_fixed) simp
  with LOGICAL_FILTER.prems show ?case
    by (cases "TryOptimize cardinality (LOGICAL_FILTER exprs pm children)")
       (simp del: TryOptimize.simps)
next
  case (LOGICAL_GET get children)
  then have "OptimizeChildren cardinality children = (None, children)"
    by (intro OptimizeChildren_fixed) simp
  with LOGICAL_GET.prems show ?case
    by (cases "TryOptimize cardinality (LOGICAL_GET get children)")
       (simp del: TryOptimize.simps)
next
  case (LOGICAL_OTHER k children)
  then have "OptimizeChildren cardinality children = (None, children)"
    by (intro OptimizeChildren_fixed) simp
  with LOGICAL_OTHER.prems show ?case
    by (cases "TryOptimize cardinality (LOGICAL_OTHER k children)")
       (simp del: TryOptimize.simps)
qed

lemma children_of_with_children: "children_of (with_children plan cs) = cs"
  by (cases plan) simp_all

lemma OptimizeRecursive_unmatched:
  assumes "fst (TryOptimize cardinality plan) = Inr False"
  shows "OptimizeRecursive cardinality plan =
           (fst (OptimizeChildren cardinality (children_of plan)),
            with_children plan (snd (OptimizeChildren cardinality (children_of plan))))"
proof -
  obtain p where t: "TryOptimize cardinality plan = (Inr False, p)"
    using assms by (cases "TryOptimize cardinality plan") simp
  show ?thesis
    using t by (cases plan) (simp_all del: TryOptimize.simps split: prod.splits)
qed

lemma OptimizeChildren_length:
  "length (snd (OptimizeChildren cardinality cs)) = length cs"
  by (induction cs) (auto split: prod.splits option.splits)

lemma OptimizeChildren_nth:
  "i < length cs \<Longrightarrow>
     snd (OptimizeChildren cardinality cs) ! i = cs ! i
     \<or> snd (OptimizeChildren cardinality cs) ! i = snd (OptimizeRecursive cardinality (cs ! i))"
proof (induction cs arbitrary: i)
  case Nil
  then show ?case by simp
next
  case (Cons c cs)
  show ?case
  proof (cases i)
    case 0
    then show ?thesis
      by (auto split: prod.splits option.splits)
  next
    case (Suc j)
    with Cons.prems have "j < length cs" by simp
    from Cons.IH [OF this] Suc show ?thesis
      by (auto split: prod.splits option.splits)
  qed
qed

lemma OptimizeChildren_None_nth:
  "fst (OptimizeChildren cardinality cs) = None \<Longrightarrow> i < length cs \<Longrightarrow>
     snd (OptimizeChildren cardinality cs) ! i = snd (OptimizeRecursive cardinality (cs ! i))
     \<and> fst (OptimizeRecursive cardinality (cs ! i)) = None"
proof (induction cs arbitrary: i)
  case Nil
  then show ?case by simp
next
  case (Cons c cs)
  from Cons.prems(1) have c: "fst (OptimizeRecursive cardinality c) = None"
    and cs: "fst (OptimizeChildren cardinality cs) = None"
    by (auto split: prod.splits option.splits)
  show ?case
  proof (cases i)
    case 0
    with c show ?thesis
      by (auto split: prod.splits option.splits)
  next
    case (Suc j)
    with Cons.prems have "j < length cs" by simp
    from Cons.IH [OF cs this] Suc c show ?thesis
      by (auto split: prod.splits option.splits)
  qed
qed

lemma subtree_traversed:
  "subtree_at plan path = Some s \<Longrightarrow> unmatched_above cardinality plan path \<Longrightarrow>
   fst (OptimizeRecursive cardinality plan) = None \<Longrightarrow>
   subtree_at (snd (OptimizeRecursive cardinality plan)) path =
     Some (snd (OptimizeRecursive cardinality s))
   \<and> fst (OptimizeRecursive cardinality s) = None"
proof (induction path arbitrary: plan)
  case Nil
  then show ?case by simp
next
  case (Cons i path)
  let ?cs = "children_of plan"
  from Cons.prems(2) have f: "fst (TryOptimize cardinality plan) = Inr False"
    and i: "i < length ?cs" and above: "unmatched_above cardinality (?cs ! i) path"
    by simp_all
  note r = OptimizeRecursive_unmatched [OF f]
  from Cons.prems(3) r have n: "fst (OptimizeChildren cardinality ?cs) = None"
    by simp
  note c = OptimizeChildren_None_nth [OF n i]
  from Cons.prems(1) i have s: "subtree_at (?cs ! i) path = Some s"
    by simp
  from Cons.IH [OF s above] c
  have "subtree_at (snd (OptimizeRecursive cardinality (?cs ! i))) path =
          Some (snd (OptimizeRecursive cardinality s))
        \<and> fst (OptimizeRecursive cardinality s) = None"
    by simp
  with c i show ?case
    by (simp add: r children_of_with_children OptimizeChildren_length)
qed

lemma subtree_without_match_kept:
  "subtree_at plan path = Some s \<Longrightarrow> unmatched_above cardinality plan path \<Longrightarrow>
   no_match cardinality s \<Longrightarrow>
   subtree_at (snd (OptimizeRecursive cardinality plan)) path = Some s"
proof (induction path arbitrary: plan)
  case Nil
  then show ?case by (simp add: OptimizeRecursive_no_match)
next
  case (Cons i path)
  let ?cs = "children_of plan"
  from Cons.prems(2) have f: "fst (TryOptimize cardinality plan) = Inr False"
    and i: "i < length ?cs" and above: "unmatched_above cardinality (?cs ! i) path"
    by simp_all
  note r = OptimizeRecursive_unmatched [OF f]
  from Cons.prems(1) i have s: "subtree_at (?cs ! i) path = Some s"
    by simp
  from Cons.IH [OF s above Cons.prems(3)]
  have ih: "subtree_at (snd (OptimizeRecursive cardinality (?cs ! i))) path = Some s" .
  from OptimizeChildren_nth [OF i, of cardinality] s ih
  have "subtree_at (snd (OptimizeChildren cardinality ?cs) ! i) path = Some s"
    by auto
  with i show ?case
    by (simp add: r children_of_with_children OptimizeChildren_length)
qed

lemma find_primary_index_found:
  "wanted \<in> set cs \<Longrightarrow> find_primary_index cs wanted i = Some (i + first_position cs wanted)"
  by (induction cs arbitrary: i) auto

lemma find_primary_index_missing:
  "wanted \<notin> set cs \<Longrightarrow> find_primary_index cs wanted i = None"
  by (induction cs arbitrary: i) auto

lemma remap_projection_map_valid:
  "\<forall>i \<in> set pm. i < length ids \<Longrightarrow> remap_projection_map ids pm = (None, map (\<lambda>i. ids ! i) pm)"
  by (induction pm) (auto simp: vector_at_def)

lemma pullup_filters_resolvable:
  assumes "\<forall>entry \<in> set fs. fst entry < length (returned_types get) \<and> fst entry \<in> set (column_ids get)"
  shows "pullup_filters get fs = Inr (map (residual_predicate get) fs)"
  using assms
  by (induction fs) (auto simp: vector_at_def find_primary_index_found residual_predicate_def)

lemma pullup_filters_missing:
  assumes "\<forall>entry \<in> set fs. fst entry < length (returned_types get)"
    and "\<exists>entry \<in> set fs. fst entry \<notin> set (column_ids get)"
  shows "pullup_filters get fs = Inl (InternalException ''Could not find column id for filter'')"
  using assms
proof (induction fs)
  case Nil
  then show ?case by simp
next
  case (Cons entry fs)
  obtain column_id f where entry: "entry = (column_id, f)" by (cases entry)
  show ?case
  proof (cases "column_id \<in> set (column_ids get)")
    case True
    with Cons entry show ?thesis
      by (auto simp: vector_at_def find_primary_index_found)
  next
    case False
    with Cons.prems entry show ?thesis
      by (simp add: vector_at_def find_primary_index_missing)
  qed
qed

lemma remap_step:
  assumes "projection_map_valid get filter_pm"
  shows "(case filter_pm of
            Some projection_map \<Rightarrow>
              (if projection_ids get \<noteq> [] then
                 (case remap_projection_map (projection_ids get) projection_map of
                    (r, pm) \<Rightarrow> (r, Some pm))
               else (None, filter_pm))
          | None \<Rightarrow> (None, filter_pm)) = (None, remapped get filter_pm)"
  using assms
  by (auto simp: projection_map_valid_def remapped_def remap_projection_map_valid split: option.splits)

lemma pullup_filters_cong:
  assumes "returned_types g' = returned_types g" and "column_ids g' = column_ids g"
    and "table_index g' = table_index g"
  shows "pullup_filters g' fs = pullup_filters g fs"
proof (induction fs)
  case Nil
  show ?case by simp
next
  case (Cons entry fs)
  obtain column_id f where "entry = (column_id, f)" by (cases entry)
  with Cons assms show ?case
    by (simp cong: sum.case_cong option.case_cong)
qed

lemma pullup_filters_index_scan:
  "pullup_filters (index_scan_get cardinality bd get\<lparr>projection_ids := [], types := []\<rparr>) fs =
     pullup_filters get fs"
  by (rule pullup_filters_cong) (simp_all add: index_scan_get_def)

lemma pullup_filters_rewritten:
  "pullup_filters
     (get\<lparr>function_name := fn, has_estimated_cardinality := h,
          get_estimated_cardinality := n, bind_data := bd,
          projection_ids := [], types := []\<rparr>) fs = pullup_filters get fs"
  by (rule pullup_filters_cong) simp_all

text \<open>
  Claim C1, as amended. When the rewrite matches and every pushed-down filter of the scan
  is on a column that is among the column ids of the scan (and the engine's vectors are
  indexed in range), \<open>TryOptimizeGet\<close> returns true; if the scan carries pushed-down
  filters, the index scan is wrapped in one new filter node whose expressions are the
  explicit predicates of the pushed-down filters, one for each, in order; if it carries
  none, the result is the index scan itself.
\<close>

theorem residual_filters_pulled_up:
  assumes "eligible_scan get"
    and "BindAndScan (TryIndex get fci filter_expr) (indexes (get_table get)) = Inr (Some bd)"
    and "filters_resolvable get"
    and "projection_map_valid get filter_pm"
  shows "TryOptimizeGet cardinality get ch filter_pm fci filter_expr =
     (if table_filters get = [] then
        (Inr True, LOGICAL_GET (index_scan_get cardinality bd get) ch, filter_pm)
      else
        (Inr True,
         LOGICAL_FILTER (map (residual_predicate get) (table_filters get)) []
           [LOGICAL_GET (index_scan_get cardinality bd get\<lparr>projection_ids := [], types := []\<rparr>) ch],
         remapped get filter_pm))"
proof -
  have p: "pullup_filters get (table_filters get) =
             Inr (map (residual_predicate get) (table_filters get))"
    using assms(3) by (intro pullup_filters_resolvable) (simp add: filters_resolvable_def)
  show ?thesis
    using assms(1,2,4) unfolding TryOptimizeGet_def Let_def
    by (auto simp: eligible_scan_def index_scan_get_def pullup_filters_rewritten p
          projection_map_valid_def remapped_def remap_projection_map_valid
          split: option.splits)
qed

text \<open>
  Claim C3. For a filter with the single predicate \<open>predicate\<close> over a scan that is
  eligible, carries no pushed-down filters and has an index that serves the predicate,
  the traversal returns the same filter node over the scan turned into an index scan: the
  plan has the filter it had and no other, and no exception is raised.
\<close>

theorem filter_over_scan_rewrite:
  assumes "eligible_scan get"
    and "table_filters get = []"
    and "BindAndScan (TryIndex get None predicate) (indexes (get_table get)) = Inr (Some bd)"
  shows "OptimizeRecursive cardinality (LOGICAL_FILTER [predicate] pm [LOGICAL_GET get ch]) =
     (None, LOGICAL_FILTER [predicate] pm [LOGICAL_GET (index_scan_get cardinality bd get) ch])"
proof -
  have "TryOptimizeGet cardinality get ch (Some pm) None predicate =
          (Inr True, LOGICAL_GET (index_scan_get cardinality bd get) ch, Some pm)"
    using assms
    by (simp add: TryOptimizeGet_def eligible_scan_def index_scan_get_def)
  then show ?thesis
    by simp
qed

lemma RewriteIndexExpression_total:
  "column_refs_below (length (index_column_ids idx)) e
     \<Longrightarrow> \<exists>r. RewriteIndexExpression idx get e rp = Inr r"
  "(\<forall>c \<in> set cs. column_refs_below (length (index_column_ids idx)) c)
     \<Longrightarrow> \<exists>r. RewriteIndexExpression_children idx get cs rp = Inr r"
proof (induction idx get e rp and idx get cs rp
       rule: RewriteIndexExpression_RewriteIndexExpression_children.induct)
  case (1 idx get t ti ci rp)
  then show ?case by (auto simp: vector_at_def split: option.splits)
next
  case (2 idx get t f cs rp)
  then show ?case by (auto split: sum.splits)
next
  case (3 idx get k t cs rp)
  then show ?case by (auto split: sum.splits)
next
  case (4 idx get k cs rp)
  then show ?case by (auto split: sum.splits)
next
  case (5 idx get k cs rp)
  then show ?case by (auto split: sum.splits)
next
  case (6 idx get t i rp)
  then show ?case by simp
next
  case (7 idx get v rp)
  then show ?case by simp
next
  case (8 idx get rp)
  then show ?case by simp
next
  case (9 idx get c cs rp)
  then show ?case by (fastforce split: sum.splits prod.splits)
qed

lemma Match_Some:
  assumes "Match predicates index_expr e = Some (b0, b1, b2)"
  shows "\<exists>t f a b v. e = BoundFunctionExpression t f [a, b] \<and> name f \<in> set predicates
           \<and> b0 = e \<and> b1 = index_expr \<and> b2 = BoundConstantExpression v
           \<and> ((a = index_expr \<and> b = BoundConstantExpression v)
               \<or> (b = index_expr \<and> a = BoundConstantExpression v))"
proof -
  have c: "is_bound_constant x \<Longrightarrow> \<exists>v. x = BoundConstantExpression v" for x
    by (cases x) simp_all
  from assms show ?thesis
    by (auto simp: Match_def split: Expression.splits list.splits if_splits dest: c)
qed

lemma TryIndex_eq:
  "TryIndex get fci e idx =
     (case rewritten_index_expression get fci idx of
        Inl x \<Rightarrow> Inl x
      | Inr (index_expr, rewrite_possible) \<Rightarrow>
          (if \<not> rewrite_possible then Inr None
           else
             (case Match spatial_predicates index_expr e of
                None \<Rightarrow> Inr None
              | Some (b0, b1, b2) \<Rightarrow>
                  (case b2 of
                     BoundConstantExpression constant_value \<Rightarrow>
                       (case TryGetBoundingBox constant_value of
                          None \<Rightarrow> Inr None
                        | Some bbox \<Rightarrow>
                            Inr (Some \<lparr>bind_table = table_name (get_table get),
                                       bind_index = idx, bind_bbox = bbox\<rparr>))
                   | _ \<Rightarrow> Inl (InternalException ''Failed to cast expression'')))))"
  by (simp add: TryIndex_def rewritten_index_expression_def split: sum.splits option.splits)

lemma TryIndex_Some:
  assumes "TryIndex get fci e idx = Inr (Some bd)"
  shows "\<exists>t f a b v index_expr.
           rewritten_index_expression get fci idx = Inr (index_expr, True)
           \<and> e = BoundFunctionExpression t f [a, b] \<and> name f \<in> set spatial_predicates
           \<and> ((a = index_expr \<and> b = BoundConstantExpression v)
               \<or> (b = index_expr \<and> a = BoundConstantExpression v))
           \<and> TryGetBoundingBox v = Some (bind_bbox bd) \<and> bind_index bd = idx"
proof -
  from assms obtain index_expr where r: "rewritten_index_expression get fci idx = Inr (index_expr, True)"
    by (auto simp: TryIndex_eq split: sum.splits if_splits)
  with assms obtain b0 b1 b2 where m: "Match spatial_predicates index_expr e = Some (b0, b1, b2)"
    by (auto simp: TryIndex_eq split: option.splits)
  from Match_Some [OF m] obtain t f a b v where
    e: "e = BoundFunctionExpression t f [a, b]" "name f \<in> set spatial_predicates"
       "b2 = BoundConstantExpression v"
       "(a = index_expr \<and> b = BoundConstantExpression v) \<or> (b = index_expr \<and> a = BoundConstantExpression v)"
    by blast
  from assms r m e(3) have "TryGetBoundingBox v = Some (bind_bbox bd) \<and> bind_index bd = idx"
    by (auto simp: TryIndex_eq split: option.splits)
  with r e show ?thesis by blast
qed

lemma BindAndScan_Some:
  "BindAndScan f is = Inr (Some bd) \<Longrightarrow> \<exists>i \<in> set is. f i = Inr (Some bd)"
  by (induction "is") (auto split: sum.splits option.splits)

lemma BindAndScan_None:
  "(\<And>i. i \<in> set is \<Longrightarrow> f i = Inr None) \<Longrightarrow> BindAndScan f is = Inr None"
  by (induction "is") auto

lemma TryOptimizeGet_True:
  assumes "fst (TryOptimizeGet cardinality get ch fpm fci e) = Inr True"
  shows "\<exists>bd. BindAndScan (TryIndex get fci e) (indexes (get_table get)) = Inr (Some bd)"
  using assms
  by (auto simp: TryOptimizeGet_def Let_def split: if_splits sum.splits option.splits prod.splits)

text \<open>
  What the rewriter does check: a match is found only for a function expression with two
  children whose name is in the list, one child the rewritten key expression of an index
  of the table and the other a constant with cached bounds, in either order.
\<close>

lemma rewrite_only_for_listed_predicates:
  assumes "fst (TryOptimizeGet cardinality get ch fpm fci e) = Inr True"
  shows "\<exists>idx index_expr t f a b v.
           idx \<in> set (indexes (get_table get))
           \<and> rewritten_index_expression get fci idx = Inr (index_expr, True)
           \<and> e = BoundFunctionExpression t f [a, b] \<and> name f \<in> set spatial_predicates
           \<and> ((a = index_expr \<and> b = BoundConstantExpression v)
               \<or> (b = index_expr \<and> a = BoundConstantExpression v))
           \<and> TryGetBoundingBox v \<noteq> None"
proof -
  from TryOptimizeGet_True [OF assms] obtain bd where
    "BindAndScan (TryIndex get fci e) (indexes (get_table get)) = Inr (Some bd)" ..
  from BindAndScan_Some [OF this] obtain idx where
    idx: "idx \<in> set (indexes (get_table get))" "TryIndex get fci e idx = Inr (Some bd)"
    by blast
  from TryIndex_Some [OF idx(2)] idx(1) show ?thesis
    by (metis option.distinct(1))
qed

lemma rewritten_index_expression_total:
  assumes "index_ok idx"
  shows "\<exists>r. rewritten_index_expression get fci idx = Inr r"
proof (cases "index_unbound_expressions idx")
  case Nil
  with assms show ?thesis by (simp add: index_ok_def)
next
  case (Cons e0 es)
  with assms have "column_refs_below (length (index_column_ids idx)) e0"
    by (simp add: index_ok_def)
  from RewriteIndexExpression_total(1) [OF this] obtain r where
    "RewriteIndexExpression idx get e0 True = Inr r" by blast
  with Cons show ?thesis
    by (cases fci) (simp_all add: rewritten_index_expression_def vector_at_def)
qed

lemma TryIndex_no_bounds:
  assumes "index_ok idx"
    and "\<forall>v \<in> set (constant_operands e). TryGetBoundingBox v = None"
  shows "TryIndex get fci e idx = Inr None"
proof -
  from rewritten_index_expression_total [OF assms(1)] obtain index_expr rp where
    r: "rewritten_index_expression get fci idx = Inr (index_expr, rp)"
    by (metis surj_pair)
  show ?thesis
  proof (cases "rp \<and> Match spatial_predicates index_expr e \<noteq> None")
    case False
    then have "\<not> rp \<or> Match spatial_predicates index_expr e = None"
      by blast
    with r show ?thesis
      by (auto simp: TryIndex_eq)
  next
    case True
    then obtain b0 b1 b2 where m: "Match spatial_predicates index_expr e = Some (b0, b1, b2)"
      by (metis not_None_eq surj_pair)
    from Match_Some [OF m] obtain t f a b v where
      e: "e = BoundFunctionExpression t f [a, b]" "b2 = BoundConstantExpression v"
         "(a = index_expr \<and> b = BoundConstantExpression v) \<or> (b = index_expr \<and> a = BoundConstantExpression v)"
      by blast
    then have "v \<in> set (constant_operands e)"
      by auto
    with assms(2) have "TryGetBoundingBox v = None"
      by blast
    with r m e(2) True show ?thesis
      by (simp add: TryIndex_eq)
  qed
qed

text \<open>
  Claim C6. If no constant operand of the filter expression has cached bounds (and the
  indexes of the table are well formed), \<open>TryOptimizeGet\<close> returns false, raises nothing
  and leaves the scan as it was; a filter over such a scan without pushed-down filters
  comes out of the traversal unchanged.
\<close>

theorem no_bounding_box_disables_rewrite:
  assumes "indexes_ok get" and "no_constant_bounds filter_expr"
  shows "TryOptimizeGet cardinality get ch filter_pm fci filter_expr =
           (Inr False, LOGICAL_GET get ch, filter_pm)
         \<and> (table_filters get = [] \<longrightarrow>
              OptimizeRecursive cardinality (LOGICAL_FILTER [filter_expr] pm [LOGICAL_GET get []]) =
                (None, LOGICAL_FILTER [filter_expr] pm [LOGICAL_GET get []]))"
proof -
  have scan: "BindAndScan (TryIndex get c filter_expr) (indexes (get_table get)) = Inr None" for c
    using assms
    by (intro BindAndScan_None TryIndex_no_bounds)
       (auto simp: indexes_ok_def no_constant_bounds_def)
  have t: "TryOptimizeGet cardinality get ch' fpm c filter_expr = (Inr False, LOGICAL_GET get ch', fpm)"
    for ch' fpm c
    by (simp add: TryOptimizeGet_def scan)
  show ?thesis
    by (simp add: t)
qed

lemmas rewriter_example_defs =
  geom_index_def example_table_def example_get_def ST_Intersects_GEOMETRY_def
  spatial_predicate_def predicate_without_bounds_def ST_Intersects_VARCHAR_def
  mistyped_predicate_def fixed_cardinality_def example_bind_data_def column_not_null_def
  get_with_price_filter_def get_with_stray_filter_def geometry_with_bounds_def
  point_geometry_def narrow_box_def

lemmas rewriter_run_defs =
  TryOptimizeGet_def TryIndex_def Match_def spatial_predicates_def TryGetBoundingBox_def
  TryGetCachedBounds_def vector_at_def Let_def index_scan_get_def

theorem filter_over_scan_rewrite_witness:
  "eligible_scan example_get \<and> table_filters example_get = []
   \<and> BindAndScan (TryIndex example_get None spatial_predicate)
       (indexes (get_table example_get)) = Inr (Some example_bind_data)
   \<and> OptimizeRecursive fixed_cardinality
       (LOGICAL_FILTER [spatial_predicate] [] [LOGICAL_GET example_get []]) =
     (None, LOGICAL_FILTER [spatial_predicate] []
              [LOGICAL_GET (index_scan_get fixed_cardinality example_bind_data example_get) []])"
  using filter_over_scan_rewrite
      [of example_get spatial_predicate example_bind_data fixed_cardinality "[]" "[]"]
  by (simp add: eligible_scan_def rewriter_example_defs rewriter_run_defs)

theorem residual_filters_pulled_up_witness:
  "eligible_scan get_with_price_filter
   \<and> BindAndScan (TryIndex get_with_price_filter None spatial_predicate)
       (indexes (get_table get_with_price_filter)) = Inr (Some example_bind_data)
   \<and> filters_resolvable get_with_price_filter
   \<and> projection_map_valid get_with_price_filter (Some [0])
   \<and> TryOptimizeGet fixed_cardinality get_with_price_filter [] (Some [0]) None spatial_predicate =
       (Inr True,
        LOGICAL_FILTER
          [BoundOperatorExpression OPERATOR_IS_NOT_NULL BOOLEAN
             [BoundColumnRefExpression BIGINT 0 1]] []
          [LOGICAL_GET (index_scan_get fixed_cardinality example_bind_data get_with_price_filter
                          \<lparr>projection_ids := [], types := []\<rparr>) []],
        Some [0])"
  using residual_filters_pulled_up
      [of get_with_price_filter None spatial_predicate example_bind_data "Some [0]"
          fixed_cardinality "[]"]
  by (simp add: eligible_scan_def filters_resolvable_def projection_map_valid_def remapped_def
        residual_predicate_def rewriter_example_defs rewriter_run_defs)

text \<open>
  Not every match with pushed-down filters ends in a wrapping filter: with a filter on a
  column that the scan does not project, the match is found and an exception is raised.
\<close>

theorem residual_filters_counterexample:
  "eligible_scan get_with_stray_filter
   \<and> BindAndScan (TryIndex get_with_stray_filter None spatial_predicate)
       (indexes (get_table get_with_stray_filter)) = Inr (Some example_bind_data)
   \<and> table_filters get_with_stray_filter \<noteq> []
   \<and> TryOptimize fixed_cardinality
        (LOGICAL_FILTER [spatial_predicate] [] [LOGICAL_GET get_with_stray_filter []]) =
       (Inl (InternalException ''Could not find column id for filter''),
        LOGICAL_FILTER [spatial_predicate] []
          [LOGICAL_GET (index_scan_get fixed_cardinality example_bind_data get_with_stray_filter
                          \<lparr>projection_ids := [], types := []\<rparr>) []])"
  by (simp add: eligible_scan_def rewriter_example_defs rewriter_run_defs)

text \<open>
  Claim C5, at a failing input. \<open>IsSpatialPredicate\<close> rejects the function
  \<open>ST_Intersects(GEOMETRY, VARCHAR)\<close>, and the rewriter, which does not call it, rewrites
  the scan under a filter on that function into an index scan.
\<close>

theorem untyped_predicate_rewritten:
  "\<not> IsSpatialPredicate ST_Intersects_VARCHAR spatial_predicates
   \<and> Optimize fixed_cardinality
       (LOGICAL_FILTER [mistyped_predicate] [] [LOGICAL_GET example_get []]) =
     (None, LOGICAL_FILTER [mistyped_predicate] []
              [LOGICAL_GET (index_scan_get fixed_cardinality example_bind_data example_get) []])"
  by (simp add: Optimize_def IsSpatialPredicate_def rewriter_example_defs
        rewriter_run_defs)

theorem no_bounding_box_disables_rewrite_witness:
  "indexes_ok example_get
   \<and> no_constant_bounds predicate_without_bounds
   \<and> TryOptimizeGet fixed_cardinality example_get [] (Some []) None predicate_without_bounds =
       (Inr False, LOGICAL_GET example_get [], Some [])
   \<and> OptimizeRecursive fixed_cardinality
        (LOGICAL_FILTER [predicate_without_bounds] [] [LOGICAL_GET example_get []]) =
       (None, LOGICAL_FILTER [predicate_without_bounds] [] [LOGICAL_GET example_get []])"
  using no_bounding_box_disables_rewrite
      [of example_get predicate_without_bounds fixed_cardinality "[]" "Some []" None "[]"]
  by (simp add: indexes_ok_def no_constant_bounds_def index_ok_def TryGetBoundingBox_def TryGetCachedBounds_def
        geom_index_def example_table_def example_get_def predicate_without_bounds_def
        point_geometry_def)

text \<open>
  Claim C7. \<open>OptimizeRecursive\<close> visits a node before its children, each node once. If
  \<open>TryOptimize\<close> matches at a node, the result for the subtree is what \<open>TryOptimize\<close> left
  there, and the children are not traversed. Below nodes that do not match the children are
  traversed: when no exception is raised, a subtree \<open>s\<close> reached by a path through nodes
  without a match is replaced, in its place, by the result of the traversal of \<open>s\<close> alone,
  so by what \<open>TryOptimize\<close> left when \<open>s\<close> is the first node on its path that matches. A
  subtree without any match reached by such a path is in its place as it was, whatever
  happens beside it; a plan without any match is returned as it was.
\<close>

theorem OptimizeRecursive_first_match_or_unchanged:
  "(TryOptimize cardinality plan = (Inr True, plan')
      \<longrightarrow> OptimizeRecursive cardinality plan = (None, plan'))
   \<and> (subtree_at plan path = Some s \<and> unmatched_above cardinality plan path
        \<and> fst (OptimizeRecursive cardinality plan) = None
      \<longrightarrow> subtree_at (snd (OptimizeRecursive cardinality plan)) path =
            Some (snd (OptimizeRecursive cardinality s)))
   \<and> (subtree_at plan path = Some s \<and> unmatched_above cardinality plan path
        \<and> fst (OptimizeRecursive cardinality plan) = None
        \<and> TryOptimize cardinality s = (Inr True, s')
      \<longrightarrow> subtree_at (snd (OptimizeRecursive cardinality plan)) path = Some s')
   \<and> (subtree_at plan path = Some s \<and> unmatched_above cardinality plan path
        \<and> no_match cardinality s
      \<longrightarrow> subtree_at (snd (OptimizeRecursive cardinality plan)) path = Some s)
   \<and> (no_match cardinality plan \<longrightarrow> OptimizeRecursive cardinality plan = (None, plan))"
proof (intro conjI impI)
  assume "TryOptimize cardinality plan = (Inr True, plan')"
  then show "OptimizeRecursive cardinality plan = (None, plan')"
    by (rule OptimizeRecursive_match)
next
  assume "subtree_at plan path = Some s \<and> unmatched_above cardinality plan path
        \<and> fst (OptimizeRecursive cardinality plan) = None"
  then show "subtree_at (snd (OptimizeRecursive cardinality plan)) path =
            Some (snd (OptimizeRecursive cardinality s))"
    using subtree_traversed by blast
next
  assume a: "subtree_at plan path = Some s \<and> unmatched_above cardinality plan path
        \<and> fst (OptimizeRecursive cardinality plan) = None
        \<and> TryOptimize cardinality s = (Inr True, s')"
  then have "subtree_at (snd (OptimizeRecursive cardinality plan)) path =
            Some (snd (OptimizeRecursive cardinality s))"
    using subtree_traversed by blast
  moreover from a have "OptimizeRecursive cardinality s = (None, s')"
    by (intro OptimizeRecursive_match) simp
  ultimately show "subtree_at (snd (OptimizeRecursive cardinality plan)) path = Some s'"
    by simp
next
  assume "subtree_at plan path = Some s \<and> unmatched_above cardinality plan path
        \<and> no_match cardinality s"
  then show "subtree_at (snd (OptimizeRecursive cardinality plan)) path = Some s"
    using subtree_without_match_kept by blast
next
  assume "no_match cardinality plan"
  then show "OptimizeRecursive cardinality plan = (None, plan)"
    by (rule OptimizeRecursive_no_match)
qed

lemmas traversal_example_defs =
  matching_filter_def rewritten_filter_def plain_subtree_def deep_plan_def
  deep_plan_rewritten_def nested_plan_def nested_plan_rewritten_def

theorem OptimizeRecursive_first_match_or_unchanged_witness:
  "TryOptimize fixed_cardinality nested_plan = (Inr True, nested_plan_rewritten)
   \<and> OptimizeRecursive fixed_cardinality nested_plan = (None, nested_plan_rewritten)
   \<and> subtree_at deep_plan [0, 1] = Some matching_filter
   \<and> unmatched_above fixed_cardinality deep_plan [0, 1]
   \<and> fst (OptimizeRecursive fixed_cardinality deep_plan) = None
   \<and> TryOptimize fixed_cardinality matching_filter = (Inr True, rewritten_filter)
   \<and> subtree_at (snd (OptimizeRecursive fixed_cardinality deep_plan)) [0, 1] =
       Some rewritten_filter
   \<and> subtree_at deep_plan [0, 0] = Some plain_subtree
   \<and> unmatched_above fixed_cardinality deep_plan [0, 0]
   \<and> no_match fixed_cardinality plain_subtree
   \<and> subtree_at (snd (OptimizeRecursive fixed_cardinality deep_plan)) [0, 0] =
       Some plain_subtree
   \<and> OptimizeRecursive fixed_cardinality deep_plan = (None, deep_plan_rewritten)
   \<and> OptimizeRecursive fixed_cardinality plain_subtree = (None, plain_subtree)"
  using OptimizeRecursive_first_match_or_unchanged
      [where cardinality = fixed_cardinality and plan = nested_plan
         and plan' = nested_plan_rewritten and path = "[]" and s = nested_plan
         and s' = nested_plan_rewritten]
    OptimizeRecursive_first_match_or_unchanged
      [where cardinality = fixed_cardinality and plan = deep_plan
         and plan' = deep_plan and path = "[0, 1]" and s = matching_filter
         and s' = rewritten_filter]
    OptimizeRecursive_first_match_or_unchanged
      [where cardinality = fixed_cardinality and plan = plain_subtree
         and plan' = plain_subtree and path = "[]" and s = plain_subtree
         and s' = plain_subtree]
  by (simp add: traversal_example_defs rewriter_example_defs rewriter_run_defs)

lemma TryOptimizeGet_raise_leaves_index_scan:
  assumes "eligible_scan get"
    and "BindAndScan (TryIndex get fci filter_expr) (indexes (get_table get)) = Inr (Some bd)"
    and "filters_typed get"
    and "\<exists>entry \<in> set (table_filters get). fst entry \<notin> set (column_ids get)"
    and "projection_map_valid get filter_pm"
  shows "TryOptimizeGet cardinality get ch filter_pm fci filter_expr =
        (Inl (InternalException ''Could not find column id for filter''),
         LOGICAL_GET (index_scan_get cardinality bd get\<lparr>projection_ids := [], types := []\<rparr>) ch,
         remapped get filter_pm)"
proof -
  have p: "pullup_filters get (table_filters get) =
             Inl (InternalException ''Could not find column id for filter'')"
    using assms(3,4) by (intro pullup_filters_missing) (simp_all add: filters_typed_def)
  have ne: "table_filters get \<noteq> []"
    using assms(4) by auto
  show ?thesis
    using assms(1,2,5) ne unfolding TryOptimizeGet_def Let_def
    by (auto simp: eligible_scan_def index_scan_get_def pullup_filters_rewritten p
          projection_map_valid_def remapped_def remap_projection_map_valid
          split: option.splits)
qed

text \<open>
  Claim C9. When a match is found and a pushed-down filter is on a column that is not among
  the column ids of the scan, \<open>TryOptimizeGet\<close> raises the internal exception, and the
  scan is left with the index scan function, the new cardinality estimate and the new bind
  data in place and its projection ids and types cleared, which is not the scan it was.
  Through a filter node the exception reaches the caller of \<open>Optimize\<close>.
\<close>

theorem rewrite_not_atomic:
  assumes "eligible_scan get"
    and "BindAndScan (TryIndex get fci filter_expr) (indexes (get_table get)) = Inr (Some bd)"
    and "filters_typed get"
    and "\<exists>entry \<in> set (table_filters get). fst entry \<notin> set (column_ids get)"
    and "projection_map_valid get filter_pm"
  shows "TryOptimizeGet cardinality get ch filter_pm fci filter_expr =
           (Inl (InternalException ''Could not find column id for filter''),
            LOGICAL_GET (index_scan_get cardinality bd get\<lparr>projection_ids := [], types := []\<rparr>) ch,
            remapped get filter_pm)
         \<and> LOGICAL_GET (index_scan_get cardinality bd get\<lparr>projection_ids := [], types := []\<rparr>) ch
             \<noteq> LOGICAL_GET get ch
         \<and> (fci = None \<longrightarrow>
              (\<forall>pm. filter_pm = Some pm \<longrightarrow>
                 fst (Optimize cardinality (LOGICAL_FILTER [filter_expr] pm [LOGICAL_GET get ch])) =
                   Some (InternalException ''Could not find column id for filter'')))"
proof (intro conjI impI allI)
  show t: "TryOptimizeGet cardinality get ch filter_pm fci filter_expr =
           (Inl (InternalException ''Could not find column id for filter''),
            LOGICAL_GET (index_scan_get cardinality bd get\<lparr>projection_ids := [], types := []\<rparr>) ch,
            remapped get filter_pm)"
    by (rule TryOptimizeGet_raise_leaves_index_scan [OF assms])
  have "function_name (index_scan_get cardinality bd get\<lparr>projection_ids := [], types := []\<rparr>)
          \<noteq> function_name get"
    using assms(1) by (simp add: index_scan_get_def eligible_scan_def)
  then have "index_scan_get cardinality bd get\<lparr>projection_ids := [], types := []\<rparr> \<noteq> get"
    by (rule contrapos_nn) (erule arg_cong)
  then show "LOGICAL_GET (index_scan_get cardinality bd get\<lparr>projection_ids := [], types := []\<rparr>) ch
             \<noteq> LOGICAL_GET get ch"
    by simp
  fix pm
  assume "fci = None" and "filter_pm = Some pm"
  with t show "fst (Optimize cardinality (LOGICAL_FILTER [filter_expr] pm [LOGICAL_GET get ch])) =
                   Some (InternalException ''Could not find column id for filter'')"
    by (simp add: Optimize_def)
qed

theorem rewrite_not_atomic_witness:
  "eligible_scan get_with_stray_filter
   \<and> BindAndScan (TryIndex get_with_stray_filter None spatial_predicate)
       (indexes (get_table get_with_stray_filter)) = Inr (Some example_bind_data)
   \<and> filters_typed get_with_stray_filter
   \<and> (\<exists>entry \<in> set (table_filters get_with_stray_filter).
         fst entry \<notin> set (column_ids get_with_stray_filter))
   \<and> projection_map_valid get_with_stray_filter (Some [])
   \<and> Optimize fixed_cardinality
        (LOGICAL_FILTER [spatial_predicate] [] [LOGICAL_GET get_with_stray_filter []]) =
       (Some (InternalException ''Could not find column id for filter''),
        LOGICAL_FILTER [spatial_predicate] []
          [LOGICAL_GET (index_scan_get fixed_cardinality example_bind_data get_with_stray_filter
                          \<lparr>projection_ids := [], types := []\<rparr>) []])"
  using rewrite_not_atomic
      [of get_with_stray_filter None spatial_predicate example_bind_data "Some []"
          fixed_cardinality "[]"]
  by (simp add: eligible_scan_def filters_typed_def projection_map_valid_def remapped_def
        Optimize_def rewriter_example_defs rewriter_run_defs)

end
